theory Spec2Isabelle
  imports Complex_Main
begin

section \<open>Python values and list operations\<close>

text \<open>
  Python floats are modelled as the reals they approximate: every score below is a
  \<^typ>\<open>real\<close>, and infinities and NaN are outside the model. Rounding is outside the
  model too, with one exception: the sort key of the fusion in
  \<open>elasticsearch_search.py\<close> adds a score of at most 1 to a priority of up to a million,
  where the rounding of the sum decides the order of near ties; that sum is rounded
  explicitly.

  A key of a row dictionary is absent, present with the value \<open>None\<close>, or present with a
  value. \<open>dict_get\<close> is \<open>d.get(key, default)\<close>: its result is \<open>None\<close> only for a key
  that is present and holds Python's \<open>None\<close>.
\<close>

datatype 'a field = Missing | Null | Val 'a

definition dict_get :: "'a field \<Rightarrow> 'a \<Rightarrow> 'a option" where
  "dict_get f d = (case f of Missing \<Rightarrow> Some d | Null \<Rightarrow> None | Val v \<Rightarrow> Some v)"

text \<open>
  \<open>sorted(xs, key=k, reverse=True)\<close> and \<open>xs.sort(key=k, reverse=True)\<close>: a stable sort into
  descending key order (elements with equal keys keep their input order). The parameter
  \<open>ge a b\<close> is \<open>k a \<ge> k b\<close>.
\<close>

fun insort_desc :: "('a \<Rightarrow> 'a \<Rightarrow> bool) \<Rightarrow> 'a \<Rightarrow> 'a list \<Rightarrow> 'a list" where
  "insort_desc ge x [] = [x]"
| "insort_desc ge x (y # ys) = (if ge x y then x # y # ys else y # insort_desc ge x ys)"

definition sorted_desc :: "('a \<Rightarrow> 'a \<Rightarrow> bool) \<Rightarrow> 'a list \<Rightarrow> 'a list" where
  "sorted_desc ge xs = foldr (insort_desc ge) xs []"

text \<open>\<open>xs[:limit]\<close>: a negative limit drops that many elements from the end.\<close>

definition py_take :: "int \<Rightarrow> 'a list \<Rightarrow> 'a list" where
  "py_take limit xs =
     (if 0 \<le> limit then take (nat limit) xs else take (length xs - nat (- limit)) xs)"

text \<open>\<open>max(xs, key=k)\<close> on a non-empty list \<open>b # xs\<close>: the first element with the largest key.\<close>

fun max_by :: "('a \<Rightarrow> real) \<Rightarrow> 'a \<Rightarrow> 'a list \<Rightarrow> 'a" where
  "max_by k b [] = b"
| "max_by k b (x # xs) = max_by k (if k b < k x then x else b) xs"

section \<open>backend/utils/helpers.py\<close>

definition calculate_experience_multiplier :: "real \<Rightarrow> real" where
  "calculate_experience_multiplier years =
     (if years \<le> 1 then 1.0
      else if years \<le> 2 then 1.2
      else if years \<le> 3 then 1.4
      else if years \<le> 4 then 1.6
      else if years \<le> 5 then 1.8
      else 2.0)"

section \<open>backend/search/candidate\_scorer.py\<close>

text \<open>
  A result row as the scorer reads it. Dates are day numbers (\<open>None\<close> is a null date);
  the four text columns can be null, as they are in the relational store; the numeric
  keys are absent (\<open>None\<close>) or hold a number. The candidate's contact details are carried
  through unchanged and are left out.
\<close>

record row =
  candidate_id :: nat
  match_tier :: "string option"
  elasticsearch_score :: "real option"
  start_date :: "int option"
  end_date :: "int option"
  structured_content_en :: "string field"
  structured_content_mn :: "string field"
  company_name :: "string field"
  position_title :: "string field"
  norm_cos_sim :: "real option"
  fts_vector_en_rank :: "real option"
  fts_vector_mn_rank :: "real option"

text \<open>The dictionary \<open>exp_data\<close> built per row; a text entry is \<open>None\<close> when the row's is null.\<close>

record exp_data =
  content :: "string option"
  exp_structured_content_mn :: "string option"
  exp_company_name :: "string option"
  exp_position_title :: "string option"
  years :: real
  combined_score :: real
  exp_match_tier :: "string option"
  exp_elasticsearch_score :: "real option"
  tier_priority :: "nat option"

record ExperienceResponse =
  r_content :: string
  r_structured_content_mn :: string
  r_company_name :: string
  r_position_title :: string
  r_years :: real
  r_combined_score :: real
  r_match_tier :: "string option"
  r_elasticsearch_score :: "real option"
  r_tier_priority :: "nat option"

record CandidateResponse =
  c_candidate_id :: nat
  final_score :: real
  experiences :: "ExperienceResponse list"

datatype scoring_error = ValidationError

text \<open>
  \<open>ExperienceResponse(**exp)\<close>: the four text fields are declared \<open>str\<close>, so the model
  validation raises when one of them is \<open>None\<close>.
\<close>

definition make_ExperienceResponse :: "exp_data \<Rightarrow> scoring_error + ExperienceResponse" where
  "make_ExperienceResponse e =
     (case (content e, exp_structured_content_mn e, exp_company_name e, exp_position_title e) of
        (Some c, Some m, Some co, Some p) \<Rightarrow>
          Inr \<lparr>r_content = c, r_structured_content_mn = m, r_company_name = co,
               r_position_title = p, r_years = years e, r_combined_score = combined_score e,
               r_match_tier = exp_match_tier e,
               r_elasticsearch_score = exp_elasticsearch_score e,
               r_tier_priority = tier_priority e\<rparr>
      | _ \<Rightarrow> Inl ValidationError)"

text \<open>The list comprehension \<open>[ExperienceResponse(**exp) for exp in es]\<close>: the first failure raises.\<close>

fun make_all :: "exp_data list \<Rightarrow> scoring_error + ExperienceResponse list" where
  "make_all [] = Inr []"
| "make_all (e # es) =
     (case make_ExperienceResponse e of
        Inl err \<Rightarrow> Inl err
      | Inr r \<Rightarrow> (case make_all es of Inl err \<Rightarrow> Inl err | Inr rs \<Rightarrow> Inr (r # rs)))"

definition tier_priority_map :: "string \<rightharpoonup> nat" where
  "tier_priority_map =
     [''exact'' \<mapsto> 1000000, ''relevant'' \<mapsto> 100000, ''similar'' \<mapsto> 10000,
      ''semantic_only'' \<mapsto> 5000, ''unknown'' \<mapsto> 1000]"

text \<open>\<open>tier_priority_map.get(x.get('match_tier', 'unknown'), 1000)\<close>\<close>

definition row_tier_priority :: "row \<Rightarrow> nat" where
  "row_tier_priority x =
     (case tier_priority_map (case match_tier x of None \<Rightarrow> ''unknown'' | Some t \<Rightarrow> t) of
        None \<Rightarrow> 1000 | Some p \<Rightarrow> p)"

definition row_es_score :: "row \<Rightarrow> real" where
  "row_es_score x = (case elasticsearch_score x of None \<Rightarrow> 0 | Some s \<Rightarrow> s)"

text \<open>The sort key \<open>(tier priority, elasticsearch score)\<close>, compared as Python compares tuples.\<close>

definition tier_key_ge :: "row \<Rightarrow> row \<Rightarrow> bool" where
  "tier_key_ge a b =
     (row_tier_priority b < row_tier_priority a \<or>
      (row_tier_priority a = row_tier_priority b \<and> row_es_score b \<le> row_es_score a))"

text \<open>
  \<open>_calculate_experience_years\<close>, with \<open>today\<close> the day number of \<open>date.today()\<close>:
  a null start date gives 0, a null end date runs to today.
\<close>

definition calculate_experience_years :: "int \<Rightarrow> int option \<Rightarrow> int option \<Rightarrow> real" where
  "calculate_experience_years today start_d end_d =
     (let e = (case end_d of None \<Rightarrow> today | Some d \<Rightarrow> d)
      in case start_d of
           None \<Rightarrow> 0
         | Some s \<Rightarrow> max (real_of_int (e - s) / 365.25) 0)"

definition calculate_tier_score_fixed :: "row \<Rightarrow> real \<Rightarrow> real" where
  "calculate_tier_score_fixed r yrs =
     (let tier = (case match_tier r of None \<Rightarrow> ''similar'' | Some t \<Rightarrow> t);
          es = row_es_score r;
          experience_multiplier = calculate_experience_multiplier yrs
      in if tier = ''exact'' then (100.0 + es / 100.0) * (1.0 + experience_multiplier * 0.3)
         else if tier = ''relevant'' then (10.0 + es / 1000.0) * (1.0 + experience_multiplier * 0.2)
         else (1.0 + es / 10000.0) * (1.0 + experience_multiplier * 0.1))"

text \<open>
  \<open>_calculate_candidate_final_score_fixed\<close>: the best experience by score, 1000 more when
  its tier is exact, and a tenth of the scores at positions 1 and 2 of the list
  (\<open>experiences[1:3]\<close>).
\<close>

definition calculate_candidate_final_score_fixed :: "exp_data list \<Rightarrow> real" where
  "calculate_candidate_final_score_fixed exps =
     (case exps of
        [] \<Rightarrow> 0.0
      | e # es \<Rightarrow>
          (let best_experience = max_by combined_score e es;
               best_score = combined_score best_experience;
               boost = (if exp_match_tier best_experience = Some ''exact''
                        then 1000.0 + best_score else best_score);
               additional_score = sum_list (map (\<lambda>x. combined_score x * 0.1) (take 2 (drop 1 exps)))
           in boost + additional_score))"

text \<open>The body of the aggregation loop for one row.\<close>

definition row_exp_data :: "int \<Rightarrow> row \<Rightarrow> exp_data" where
  "row_exp_data today r =
     (let yrs = calculate_experience_years today (start_date r) (end_date r);
          tier_score = calculate_tier_score_fixed r yrs
      in \<lparr>content = dict_get (structured_content_en r) '''',
          exp_structured_content_mn = dict_get (structured_content_mn r) '''',
          exp_company_name = dict_get (company_name r) '''',
          exp_position_title = dict_get (position_title r) '''',
          years = yrs,
          combined_score = tier_score,
          exp_match_tier = Some (case match_tier r of None \<Rightarrow> ''unknown'' | Some t \<Rightarrow> t),
          exp_elasticsearch_score = Some (row_es_score r),
          tier_priority = Some (row_tier_priority r)\<rparr>)"

text \<open>
  \<open>candidate_experiences\<close>: a dictionary from candidate id to the list of its experiences;
  iteration follows the order in which the keys were first inserted.
\<close>

fun add_experience :: "nat \<Rightarrow> exp_data \<Rightarrow> (nat \<times> exp_data list) list \<Rightarrow> (nat \<times> exp_data list) list" where
  "add_experience c e [] = [(c, [e])]"
| "add_experience c e ((k, es) # rest) =
     (if k = c then (k, es @ [e]) # rest else (k, es) # add_experience c e rest)"

definition aggregate :: "int \<Rightarrow> row list \<Rightarrow> (nat \<times> exp_data list) list" where
  "aggregate today rows =
     foldl (\<lambda>acc r. add_experience (candidate_id r) (row_exp_data today r) acc) [] rows"

text \<open>
  One iteration of the loop over candidates: the final score is computed from all
  experiences, the experiences above the threshold are kept, and a candidate whose
  response cannot be built is skipped (\<open>except ...: continue\<close>).
\<close>

definition candidate_response :: "real \<Rightarrow> nat \<times> exp_data list \<Rightarrow> CandidateResponse list" where
  "candidate_response score_threshold ce =
     (let final = calculate_candidate_final_score_fixed (snd ce);
          relevant_experiences = filter (\<lambda>e. score_threshold < combined_score e) (snd ce)
      in if relevant_experiences \<noteq> [] then
           (case make_all relevant_experiences of
              Inl err \<Rightarrow> []
            | Inr rs \<Rightarrow> [\<lparr>c_candidate_id = fst ce, final_score = final, experiences = rs\<rparr>])
         else [])"

definition final_score_ge :: "CandidateResponse \<Rightarrow> CandidateResponse \<Rightarrow> bool" where
  "final_score_ge a b = (final_score b \<le> final_score a)"

definition score_tier_based_results_fixed ::
  "int \<Rightarrow> row list \<Rightarrow> real \<Rightarrow> int \<Rightarrow> CandidateResponse list" where
  "score_tier_based_results_fixed today results score_threshold limit =
     (let sorted_results = sorted_desc tier_key_ge results;
          candidate_experiences = aggregate today sorted_results;
          candidates = concat (map (candidate_response score_threshold) candidate_experiences)
      in py_take limit (sorted_desc final_score_ge candidates))"

text \<open>
  \<open>_score_legacy_results\<close>. The scorer object holds the two weights. The experience
  dictionary of this mode has no tier entries, so the response fields keep their default
  \<open>None\<close>. A response that cannot be built raises out of the function: the responses
  are built outside the \<open>try\<close>.
\<close>

record scorer =
  keyword_weight :: real
  semantic_weight :: real

definition default_scorer :: scorer where
  "default_scorer = \<lparr>keyword_weight = 0.8, semantic_weight = 0.2\<rparr>"

definition legacy_combined_score :: "scorer \<Rightarrow> row \<Rightarrow> real" where
  "legacy_combined_score s r =
     (let semantic_score = (case norm_cos_sim r of None \<Rightarrow> 0 | Some v \<Rightarrow> v)
      in case elasticsearch_score r of
           Some es_score \<Rightarrow>
             keyword_weight s * min (es_score / 10000.0) 1.0 + semantic_weight s * semantic_score
         | None \<Rightarrow>
             (let keyword_score = max (case fts_vector_en_rank r of None \<Rightarrow> 0 | Some v \<Rightarrow> v)
                                      (case fts_vector_mn_rank r of None \<Rightarrow> 0 | Some v \<Rightarrow> v);
                  keyword_score = min (max keyword_score 0) 1
              in keyword_weight s * keyword_score + semantic_weight s * semantic_score))"

definition legacy_exp_data :: "scorer \<Rightarrow> int \<Rightarrow> row \<Rightarrow> exp_data" where
  "legacy_exp_data s today r =
     \<lparr>content = dict_get (structured_content_en r) '''',
      exp_structured_content_mn = dict_get (structured_content_mn r) '''',
      exp_company_name = dict_get (company_name r) '''',
      exp_position_title = dict_get (position_title r) '''',
      years = calculate_experience_years today (start_date r) (end_date r),
      combined_score = legacy_combined_score s r,
      exp_match_tier = None,
      exp_elasticsearch_score = None,
      tier_priority = None\<rparr>"

definition legacy_aggregate :: "scorer \<Rightarrow> int \<Rightarrow> row list \<Rightarrow> (nat \<times> exp_data list) list" where
  "legacy_aggregate s today rows =
     foldl (\<lambda>acc r. add_experience (candidate_id r) (legacy_exp_data s today r) acc) [] rows"

definition legacy_candidate ::
  "real \<Rightarrow> nat \<times> exp_data list \<Rightarrow> scoring_error + CandidateResponse list" where
  "legacy_candidate score_threshold ce =
     (let above = filter (\<lambda>e. score_threshold < combined_score e) (snd ce);
          final = sum_list (map (\<lambda>e. calculate_experience_multiplier (years e) * combined_score e) above)
      in case make_all above of
           Inl err \<Rightarrow> Inl err
         | Inr rs \<Rightarrow>
             Inr (if rs \<noteq> [] then [\<lparr>c_candidate_id = fst ce, final_score = final, experiences = rs\<rparr>]
                  else []))"

fun legacy_candidates ::
  "real \<Rightarrow> (nat \<times> exp_data list) list \<Rightarrow> scoring_error + CandidateResponse list" where
  "legacy_candidates t [] = Inr []"
| "legacy_candidates t (ce # ces) =
     (case legacy_candidate t ce of
        Inl err \<Rightarrow> Inl err
      | Inr cs \<Rightarrow> (case legacy_candidates t ces of Inl err \<Rightarrow> Inl err | Inr ds \<Rightarrow> Inr (cs @ ds)))"

definition score_legacy_results ::
  "scorer \<Rightarrow> int \<Rightarrow> row list \<Rightarrow> real \<Rightarrow> int \<Rightarrow> scoring_error + CandidateResponse list" where
  "score_legacy_results s today results score_threshold limit =
     (case legacy_candidates score_threshold (legacy_aggregate s today results) of
        Inl err \<Rightarrow> Inl err
      | Inr candidates \<Rightarrow> Inr (py_take limit (sorted_desc final_score_ge candidates)))"

text \<open>
  \<open>score_and_rank_candidates\<close>: tier-based scoring when one of the first five rows has a
  non-empty tier, the legacy scoring otherwise; an exception is logged and raised again.
\<close>

definition has_tiers :: "row list \<Rightarrow> bool" where
  "has_tiers results =
     list_ex (\<lambda>r. case match_tier r of None \<Rightarrow> False | Some t \<Rightarrow> t \<noteq> []) (take 5 results)"

definition score_and_rank_candidates ::
  "scorer \<Rightarrow> int \<Rightarrow> row list \<Rightarrow> real \<Rightarrow> int \<Rightarrow> scoring_error + CandidateResponse list" where
  "score_and_rank_candidates s today results score_threshold limit =
     (if has_tiers results
      then Inr (score_tier_based_results_fixed today results score_threshold limit)
      else score_legacy_results s today results score_threshold limit)"

text \<open>A row none of whose text columns is null: its experience always validates.\<close>

definition row_valid :: "row \<Rightarrow> bool" where
  "row_valid r =
     (structured_content_en r \<noteq> Null \<and> structured_content_mn r \<noteq> Null \<and>
      company_name r \<noteq> Null \<and> position_title r \<noteq> Null)"

section \<open>Example inputs\<close>

text \<open>A well-formed row of candidate \<open>cid\<close> with the given tier and retrieval score, no dates.\<close>

definition example_row :: "nat \<Rightarrow> string \<Rightarrow> real \<Rightarrow> row" where
  "example_row cid tier es =
     \<lparr>candidate_id = cid, match_tier = Some tier, elasticsearch_score = Some es,
      start_date = None, end_date = None,
      structured_content_en = Val ''x'', structured_content_mn = Missing,
      company_name = Val ''y'', position_title = Val ''z'',
      norm_cos_sim = None, fts_vector_en_rank = None, fts_vector_mn_rank = None\<rparr>"

lemmas scorer_defs =
  example_row_def score_tier_based_results_fixed_def sorted_desc_def tier_key_ge_def
  row_tier_priority_def tier_priority_map_def row_es_score_def aggregate_def row_exp_data_def
  calculate_experience_years_def calculate_tier_score_fixed_def
  calculate_experience_multiplier_def dict_get_def candidate_response_def
  calculate_candidate_final_score_fixed_def make_ExperienceResponse_def final_score_ge_def
  py_take_def

text \<open>
  An experience dictionary whose four text entries are strings, and the number of
  candidates of a grouping that have an experience above the threshold.
\<close>

definition exp_valid :: "exp_data \<Rightarrow> bool" where
  "exp_valid e = (content e \<noteq> None \<and> exp_structured_content_mn e \<noteq> None \<and>
                  exp_company_name e \<noteq> None \<and> exp_position_title e \<noteq> None)"

definition n_above :: "real \<Rightarrow> (nat \<times> exp_data list) list \<Rightarrow> nat" where
  "n_above t G = length (filter (\<lambda>ce. \<exists>e\<in>set (snd ce). t < combined_score e) G)"


lemmas eval_defs = scorer_defs score_and_rank_candidates_def has_tiers_def row_valid_def

text \<open>
  The candidate score as the specification words it: the best experience score, plus 1000
  when the best experience is exact, plus a tenth of the sum of the two highest scores
  other than the best. It is compared with \<open>calculate_candidate_final_score_fixed\<close>.
\<close>

definition spec_final_score :: "exp_data list \<Rightarrow> real" where
  "spec_final_score exps =
     (case exps of
        [] \<Rightarrow> 0
      | e # es \<Rightarrow>
          (let best = max_by combined_score e es;
               ranked = rev (sort (map combined_score exps))
           in combined_score best
              + (if exp_match_tier best = Some ''exact'' then 1000 else 0)
              + 0.1 * sum_list (take 2 (drop 1 ranked))))"

text \<open>A row like \<open>example_row\<close> with a tenure of 3653 days (ten years).\<close>

definition long_tenure_row :: "nat \<Rightarrow> string \<Rightarrow> real \<Rightarrow> row" where
  "long_tenure_row cid tier es =
     (example_row cid tier es)\<lparr>start_date := Some 0, end_date := Some 3653\<rparr>"

section \<open>backend/search/elasticsearch\_search.py\<close>

text \<open>
  The inputs of \<open>_combine_results_with_tier_weights\<close>: a lexical match (with the keys the
  function reads; tier and score may be absent) and a semantic match.
\<close>

record es_result =
  es_id :: nat
  es_candidate_id :: nat
  es_match_tier :: "string option"
  es_elasticsearch_score :: "real option"

record semantic_result =
  sem_id :: nat
  sem_candidate_id :: nat
  sem_norm_cos_sim :: "real option"

text \<open>The result dictionary: the input's entries and the five (or seven) added ones.\<close>

record fused =
  f_id :: nat
  f_candidate_id :: nat
  f_match_tier :: "string option"
  f_elasticsearch_score :: "real option"
  combined_search_score :: real
  f_tier_priority :: nat
  es_component_score :: real
  semantic_component_score :: real
  f_final_score :: real

text \<open>\<open>{result['id']: result for result in semantic_results}\<close>: a later entry replaces an earlier one.\<close>

definition semantic_map :: "semantic_result list \<Rightarrow> (nat \<rightharpoonup> semantic_result)" where
  "semantic_map sems = map_of (rev (map (\<lambda>s. (sem_id s, s)) sems))"


definition round_to_grid :: "real \<Rightarrow> real" where
  "round_to_grid x = real_of_int \<lfloor>x * 8589934592 + 1 / 2\<rfloor> / 8589934592"

text \<open>The body of the first loop, for a lexical match that was not seen before.\<close>

definition fuse_es :: "(real \<Rightarrow> real) \<Rightarrow> (nat \<rightharpoonup> semantic_result) \<Rightarrow> es_result \<Rightarrow> fused" where
  "fuse_es fl sm e =
     (let tier = (case es_match_tier e of None \<Rightarrow> ''similar'' | Some t \<Rightarrow> t);
          es_score = min ((case es_elasticsearch_score e of None \<Rightarrow> 0 | Some v \<Rightarrow> v) / 10000.0) 1.0;
          semantic_score =
            (case sm (es_id e) of
               None \<Rightarrow> 0.0
             | Some s \<Rightarrow> (case sem_norm_cos_sim s of None \<Rightarrow> 0 | Some v \<Rightarrow> v));
          combined_score =
            (if tier = ''exact'' then 0.9 * es_score + 0.1 * semantic_score
             else if tier = ''relevant'' then 0.5 * es_score + 0.5 * semantic_score
             else 0.1 * es_score + 0.9 * semantic_score);
          priority =
            (if tier = ''exact'' then 1000000
             else if tier = ''relevant'' then 100000
             else 10000)
      in \<lparr>f_id = es_id e, f_candidate_id = es_candidate_id e, f_match_tier = es_match_tier e,
          f_elasticsearch_score = es_elasticsearch_score e,
          combined_search_score = combined_score,
          f_tier_priority = priority,
          es_component_score = es_score,
          semantic_component_score = semantic_score,
          f_final_score = fl (real priority + combined_score)\<rparr>)"

text \<open>The first loop, with the list of results and the set \<open>seen_ids\<close> as its state.\<close>

fun es_loop ::
  "(real \<Rightarrow> real) \<Rightarrow> (nat \<rightharpoonup> semantic_result) \<Rightarrow> es_result list \<Rightarrow>
   fused list \<times> nat set \<Rightarrow> fused list \<times> nat set" where
  "es_loop fl sm [] st = st"
| "es_loop fl sm (e # es) (acc, seen) =
     (if es_id e \<in> seen then es_loop fl sm es (acc, seen)
      else es_loop fl sm es (acc @ [fuse_es fl sm e], insert (es_id e) seen))"

text \<open>The body of the second loop, for a semantic match whose id is in no lexical match.\<close>

definition fuse_sem :: "(real \<Rightarrow> real) \<Rightarrow> semantic_result \<Rightarrow> fused" where
  "fuse_sem fl s =
     (let semantic_score = (case sem_norm_cos_sim s of None \<Rightarrow> 0 | Some v \<Rightarrow> v);
          combined_score = 0.9 * semantic_score
      in \<lparr>f_id = sem_id s, f_candidate_id = sem_candidate_id s,
          f_match_tier = Some ''semantic_only'',
          f_elasticsearch_score = Some 0.0,
          combined_search_score = combined_score,
          f_tier_priority = 5000,
          es_component_score = 0.0,
          semantic_component_score = semantic_score,
          f_final_score = fl (5000 + combined_score)\<rparr>)"

fun sem_loop ::
  "(real \<Rightarrow> real) \<Rightarrow> nat set \<Rightarrow> semantic_result list \<Rightarrow> fused list \<Rightarrow> fused list" where
  "sem_loop fl seen [] acc = acc"
| "sem_loop fl seen (s # ss) acc =
     (if sem_id s \<notin> seen then sem_loop fl seen ss (acc @ [fuse_sem fl s])
      else sem_loop fl seen ss acc)"

definition fused_final_ge :: "fused \<Rightarrow> fused \<Rightarrow> bool" where
  "fused_final_ge a b = (f_final_score b \<le> f_final_score a)"

definition combine_results_with_tier_weights ::
  "(real \<Rightarrow> real) \<Rightarrow> es_result list \<Rightarrow> semantic_result list \<Rightarrow> fused list" where
  "combine_results_with_tier_weights fl es_results semantic_results =
     (let sm = semantic_map semantic_results;
          st = es_loop fl sm es_results ([], {});
          combined_results = sem_loop fl (snd st) semantic_results (fst st)
      in sorted_desc fused_final_ge combined_results)"

text \<open>
  The fusion as the specification words it: the weights per tier, the semantic score of
  an experience id (0 when it has no semantic match), the tier rank and the ordering key
  \<open>(tierRank desc, fusedScore desc)\<close>. \<open>rounded_order_ge\<close> is that order up to the rounding
  of the sort key: two matches of one tier whose sort keys are equal may stand in either
  order.
\<close>

definition spec_weights :: "string option \<Rightarrow> real \<times> real" where
  "spec_weights tier =
     (if tier = Some ''exact'' then (0.9, 0.1)
      else if tier = Some ''relevant'' then (0.5, 0.5)
      else (0.1, 0.9))"

definition spec_semantic :: "semantic_result list \<Rightarrow> nat \<Rightarrow> real" where
  "spec_semantic sems i =
     (case find (\<lambda>s. sem_id s = i) (rev sems) of
        None \<Rightarrow> 0
      | Some s \<Rightarrow> (case sem_norm_cos_sim s of None \<Rightarrow> 0 | Some v \<Rightarrow> v))"

definition spec_lexical_norm :: "es_result \<Rightarrow> real" where
  "spec_lexical_norm e =
     min ((case es_elasticsearch_score e of None \<Rightarrow> 0 | Some v \<Rightarrow> v) / 10000) 1"

definition tierRank :: "string option \<Rightarrow> nat" where
  "tierRank tier =
     (if tier = Some ''exact'' then 4
      else if tier = Some ''relevant'' then 3
      else if tier = Some ''similar'' then 2
      else if tier = Some ''semantic_only'' then 1
      else 0)"

definition spec_order_ge :: "fused \<Rightarrow> fused \<Rightarrow> bool" where
  "spec_order_ge a b =
     (tierRank (f_match_tier b) < tierRank (f_match_tier a) \<or>
      (tierRank (f_match_tier a) = tierRank (f_match_tier b) \<and>
       combined_search_score b \<le> combined_search_score a))"

definition rounded_order_ge :: "fused \<Rightarrow> fused \<Rightarrow> bool" where
  "rounded_order_ge a b =
     (tierRank (f_match_tier b) < tierRank (f_match_tier a) \<or>
      (tierRank (f_match_tier a) = tierRank (f_match_tier b) \<and>
       (combined_search_score b \<le> combined_search_score a \<or>
        f_final_score a = f_final_score b)))"

definition lexical_tier :: "string option \<Rightarrow> bool" where
  "lexical_tier t = (t = Some ''exact'' \<or> t = Some ''relevant'' \<or> t = Some ''similar'')"

lemmas fusion_defs =
  combine_results_with_tier_weights_def semantic_map_def fuse_es_def fuse_sem_def
  fused_final_ge_def sorted_desc_def spec_weights_def spec_semantic_def
  spec_lexical_norm_def tierRank_def spec_order_ge_def rounded_order_ge_def
  lexical_tier_def round_to_grid_def

text \<open>
  Example inputs of the fusion: three lexical matches of the three tiers and a repeated
  id, and two semantic matches, one of them for an id with no lexical match.
\<close>

definition example_es_results :: "es_result list" where
  "example_es_results =
     [\<lparr>es_id = 1, es_candidate_id = 10, es_match_tier = Some ''exact'',
        es_elasticsearch_score = Some 5000\<rparr>,
      \<lparr>es_id = 2, es_candidate_id = 11, es_match_tier = Some ''relevant'',
        es_elasticsearch_score = Some 20000\<rparr>,
      \<lparr>es_id = 3, es_candidate_id = 12, es_match_tier = Some ''similar'',
        es_elasticsearch_score = Some 1000\<rparr>,
      \<lparr>es_id = 1, es_candidate_id = 10, es_match_tier = Some ''similar'',
        es_elasticsearch_score = Some 0\<rparr>]"

definition example_semantic_results :: "semantic_result list" where
  "example_semantic_results =
     [\<lparr>sem_id = 2, sem_candidate_id = 11, sem_norm_cos_sim = Some 0.8\<rparr>,
      \<lparr>sem_id = 9, sem_candidate_id = 13, sem_norm_cos_sim = Some 0.5\<rparr>]"

text \<open>
  Two lexical matches of the exact tier with the semantic scores \<open>0.5\<close> and
  \<open>0.5000000001\<close>: their fused scores \<open>0.5\<close> and \<open>0.50000000001\<close> differ by less than the
  spacing of the sort keys.
\<close>

definition near_tie_es_results :: "es_result list" where
  "near_tie_es_results =
     [\<lparr>es_id = 1, es_candidate_id = 10, es_match_tier = Some ''exact'',
        es_elasticsearch_score = Some 5000\<rparr>,
      \<lparr>es_id = 2, es_candidate_id = 11, es_match_tier = Some ''exact'',
        es_elasticsearch_score = Some 5000\<rparr>]"

definition near_tie_semantic_results :: "semantic_result list" where
  "near_tie_semantic_results =
     [\<lparr>sem_id = 1, sem_candidate_id = 10, sem_norm_cos_sim = Some 0.5\<rparr>,
      \<lparr>sem_id = 2, sem_candidate_id = 11, sem_norm_cos_sim = Some 0.5000000001\<rparr>]"


section \<open>backend/search/elasticsearch\_service.py\<close>

text \<open>
  A Python string is the list of its code points. \<open>str.strip()\<close> removes the leading and
  trailing white space (the code points for which \<open>str.isspace\<close> holds); \<open>str.lower\<close>
  belongs to the runtime and is a parameter of the service.
\<close>

type_synonym py_str = "nat list"

definition is_space :: "nat \<Rightarrow> bool" where
  "is_space c =
     ((9 \<le> c \<and> c \<le> 13) \<or> (28 \<le> c \<and> c \<le> 32) \<or> c = 133 \<or> c = 160 \<or> c = 5760 \<or>
      (8192 \<le> c \<and> c \<le> 8202) \<or> c = 8232 \<or> c = 8233 \<or> c = 8239 \<or> c = 8287 \<or>
      c = 12288)"

definition py_strip :: "py_str \<Rightarrow> py_str" where
  "py_strip s = rev (dropWhile is_space (rev (dropWhile is_space s)))"

text \<open>
  The search index is external: a request is the pass whose clauses it carries, the query
  text, the size and the ids of its \<open>must_not\<close> clause (empty when there is none); the
  answer is an error or the list of hits. A hit has its \<open>_id\<close>, its \<open>_score\<close> and the
  source document, whose \<open>id\<close> key may be absent.
\<close>

datatype pass = ExactPass | RelevantPass | SimilarPass

record search_body =
  body_pass :: pass
  body_query :: py_str
  body_size :: int
  body_must_not :: "nat list"

record hit =
  hit_id :: nat
  hit_score :: real
  source_id :: "nat option"
  source_candidate_id :: nat

datatype es_error = ConnectionError | TransportError

datatype py_exn = KeyError | EsError es_error | TranslationError

record service =
  es_search :: "search_body \<Rightarrow> es_error + hit list"
  translator :: "(py_str \<Rightarrow> py_exn + py_str) option"
  str_lower :: "py_str \<Rightarrow> py_str"

text \<open>A document of the result list, with the entries the passes add to it.\<close>

record tiered =
  t_id :: "nat option"
  t_candidate_id :: nat
  t_elasticsearch_score :: real
  match_type :: string
  match_quality :: "string option"
  t_match_tier :: "string option"
  t_tier_priority :: "nat option"

text \<open>
  \<open>_is_likely_english\<close>: no character of the set \<open>mongolian_chars\<close> and more than 80% ASCII.
  The literal of that set, as it stands in the file, is the Russian alphabet read in
  another encoding: its characters are the code points below, none of them a Cyrillic
  letter.
\<close>

definition mongolian_chars :: "nat set" where
  "mongolian_chars =
     set [165, 170, 177, 181, 186, 196, 197, 199, 201, 209, 214, 220, 224, 225, 226, 227,
          228, 229, 230, 231, 232, 233, 235, 248, 937, 960, 8211, 8212, 8706, 8719, 8721,
          8734, 8747, 8804, 8805]"

definition is_likely_english :: "service \<Rightarrow> py_str \<Rightarrow> bool" where
  "is_likely_english svc text =
     (if text = [] then True
      else (let has_mongolian = list_ex (\<lambda>c. c \<in> mongolian_chars) (str_lower svc text);
                ascii_ratio = real (length (filter (\<lambda>c. c < 128) text)) / real (length text)
            in \<not> has_mongolian \<and> 0.8 < ascii_ratio))"

text \<open>The query sent to the index; a failing translation is logged and the query kept.\<close>

definition english_query :: "service \<Rightarrow> py_str \<Rightarrow> py_str" where
  "english_query svc query =
     (let q = str_lower svc (py_strip query)
      in case translator svc of
           None \<Rightarrow> q
         | Some translate \<Rightarrow>
             (if \<not> is_likely_english svc query
              then (case translate query of Inl e \<Rightarrow> q | Inr t \<Rightarrow> str_lower svc t)
              else q))"

definition exact_doc :: "hit \<Rightarrow> tiered" where
  "exact_doc h =
     \<lparr>t_id = source_id h, t_candidate_id = source_candidate_id h,
      t_elasticsearch_score = hit_score h, match_type = ''exact'',
      match_quality = Some (if 90 \<le> hit_score h then ''perfect''
                            else if 60 \<le> hit_score h then ''fuzzy'' else ''partial''),
      t_match_tier = None, t_tier_priority = None\<rparr>"

fun exact_loop :: "hit list \<Rightarrow> nat set \<Rightarrow> tiered list" where
  "exact_loop [] seen = []"
| "exact_loop (h # hs) seen =
     (if hit_id h \<notin> seen then exact_doc h # exact_loop hs (insert (hit_id h) seen)
      else exact_loop hs seen)"

definition get_exact_matches_english :: "service \<Rightarrow> py_str \<Rightarrow> tiered list" where
  "get_exact_matches_english svc q =
     (case es_search svc \<lparr>body_pass = ExactPass, body_query = q, body_size = 50,
                           body_must_not = []\<rparr> of
        Inl e \<Rightarrow> []
      | Inr hits \<Rightarrow> take 20 (exact_loop hits {}))"

definition plain_doc :: "string \<Rightarrow> hit \<Rightarrow> tiered" where
  "plain_doc ty h =
     \<lparr>t_id = source_id h, t_candidate_id = source_candidate_id h,
      t_elasticsearch_score = hit_score h, match_type = ty, match_quality = None,
      t_match_tier = None, t_tier_priority = None\<rparr>"

definition get_relevant_matches :: "service \<Rightarrow> py_str \<Rightarrow> int \<Rightarrow> nat list \<Rightarrow> tiered list" where
  "get_relevant_matches svc q limit exclude_ids =
     (case es_search svc \<lparr>body_pass = RelevantPass, body_query = q, body_size = limit,
                           body_must_not = exclude_ids\<rparr> of
        Inl e \<Rightarrow> []
      | Inr hits \<Rightarrow> map (plain_doc ''relevant'') hits)"

definition get_similar_matches :: "service \<Rightarrow> py_str \<Rightarrow> int \<Rightarrow> nat list \<Rightarrow> tiered list" where
  "get_similar_matches svc q limit exclude_ids =
     (case es_search svc \<lparr>body_pass = SimilarPass, body_query = q, body_size = limit,
                           body_must_not = exclude_ids\<rparr> of
        Inl e \<Rightarrow> []
      | Inr hits \<Rightarrow> map (plain_doc ''similar'') hits)"

text \<open>\<open>[r['id'] for r in results]\<close>: a document without the key raises \<open>KeyError\<close>.\<close>

fun ids_of :: "tiered list \<Rightarrow> py_exn + nat list" where
  "ids_of [] = Inr []"
| "ids_of (r # rs) =
     (case t_id r of
        None \<Rightarrow> Inl KeyError
      | Some i \<Rightarrow> (case ids_of rs of Inl e \<Rightarrow> Inl e | Inr is \<Rightarrow> Inr (i # is)))"

definition tag :: "string \<Rightarrow> nat \<Rightarrow> tiered \<Rightarrow> tiered" where
  "tag tier priority r = r\<lparr>t_match_tier := Some tier, t_tier_priority := Some priority\<rparr>"

text \<open>The sort key \<open>(x['tier_priority'], x.get('elasticsearch_score', 0))\<close> of tagged documents.\<close>

definition tiered_key_ge :: "tiered \<Rightarrow> tiered \<Rightarrow> bool" where
  "tiered_key_ge a b =
     (let pa = (case t_tier_priority a of None \<Rightarrow> 0 | Some p \<Rightarrow> p);
          pb = (case t_tier_priority b of None \<Rightarrow> 0 | Some p \<Rightarrow> p)
      in pb < pa \<or> (pa = pb \<and> t_elasticsearch_score b \<le> t_elasticsearch_score a))"

text \<open>
  The body of the \<open>try\<close> of \<open>search_with_priority_layers\<close>, in its four steps: the exact
  pass; the second step (\<open>relevant_results = []\<close>, and the relevant pass when the exact
  results are fewer than the limit); the third step (the similar pass likewise); tagging,
  sorting and slicing. The second and third step raise \<open>KeyError\<close> when a result so far
  has no \<open>id\<close>.
\<close>

definition relevant_pass :: "service \<Rightarrow> py_str \<Rightarrow> int \<Rightarrow> tiered list \<Rightarrow> py_exn + tiered list" where
  "relevant_pass svc q limit exact_results =
     (if int (length exact_results) < limit
      then (case ids_of exact_results of
              Inl e \<Rightarrow> Inl e
            | Inr ids \<Rightarrow>
                Inr (get_relevant_matches svc q (limit - int (length exact_results)) ids))
      else Inr [])"

definition similar_pass ::
  "service \<Rightarrow> py_str \<Rightarrow> int \<Rightarrow> tiered list \<Rightarrow> tiered list \<Rightarrow> py_exn + tiered list" where
  "similar_pass svc q limit exact_results relevant_results =
     (let total_so_far = int (length exact_results) + int (length relevant_results)
      in if total_so_far < limit
         then (case ids_of (exact_results @ relevant_results) of
                 Inl e \<Rightarrow> Inl e
               | Inr ids \<Rightarrow> Inr (get_similar_matches svc q (limit - total_so_far) ids))
         else Inr [])"

definition tag_and_sort :: "int \<Rightarrow> tiered list \<Rightarrow> tiered list \<Rightarrow> tiered list \<Rightarrow> tiered list" where
  "tag_and_sort limit exact_results relevant_results similar_results =
     py_take limit (sorted_desc tiered_key_ge
       (map (tag ''exact'' 1000000) exact_results @
        map (tag ''relevant'' 100000) relevant_results @
        map (tag ''similar'' 10000) similar_results))"

definition priority_layers :: "service \<Rightarrow> py_str \<Rightarrow> int \<Rightarrow> py_exn + tiered list" where
  "priority_layers svc query limit =
     (let q = english_query svc query;
          exact_results = get_exact_matches_english svc q
      in case relevant_pass svc q limit exact_results of
           Inl e \<Rightarrow> Inl e
         | Inr relevant_results \<Rightarrow>
             (case similar_pass svc q limit exact_results relevant_results of
                Inl e \<Rightarrow> Inl e
              | Inr similar_results \<Rightarrow>
                  Inr (tag_and_sort limit exact_results relevant_results similar_results)))"

text \<open>\<open>search_with_priority_layers\<close>: any exception of the body is logged and \<open>[]\<close> returned.\<close>

definition search_with_priority_layers :: "service \<Rightarrow> py_str \<Rightarrow> int \<Rightarrow> py_exn + tiered list" where
  "search_with_priority_layers svc query limit =
     (case priority_layers svc query limit of Inl e \<Rightarrow> Inr [] | Inr results \<Rightarrow> Inr results)"

text \<open>
  An index that honours the \<open>must_not\<close> clause: no hit of an answer has a source id that
  the request excludes.
\<close>

definition honours_must_not :: "service \<Rightarrow> bool" where
  "honours_must_not svc =
     (\<forall>body hits. es_search svc body = Inr hits \<longrightarrow>
        (\<forall>h\<in>set hits. \<forall>i. source_id h = Some i \<longrightarrow> i \<notin> set (body_must_not body)))"

text \<open>
  Example indexes. \<open>example_search\<close> answers every pass with the hits of that pass that
  the request does not exclude; \<open>exact_failing_service\<close> cannot
  be reached in the exact pass only, \<open>unreachable_service\<close> in no pass.
\<close>

definition example_hit :: "nat \<Rightarrow> real \<Rightarrow> nat \<Rightarrow> hit" where
  "example_hit i sc src =
     \<lparr>hit_id = i, hit_score = sc, source_id = Some src, source_candidate_id = 10 + src\<rparr>"

definition not_excluded :: "search_body \<Rightarrow> hit \<Rightarrow> bool" where
  "not_excluded body h =
     (case source_id h of None \<Rightarrow> True | Some i \<Rightarrow> i \<notin> set (body_must_not body))"

definition example_search :: "search_body \<Rightarrow> es_error + hit list" where
  "example_search body =
     (case body_pass body of
        ExactPass \<Rightarrow> Inr (filter (not_excluded body) [example_hit 1 95 1])
      | RelevantPass \<Rightarrow>
          Inr (filter (not_excluded body)
                 [example_hit 1 4000 1, example_hit 2 3000 2, example_hit 4 2500 2])
      | SimilarPass \<Rightarrow>
          Inr (filter (not_excluded body)
                 [example_hit 1 200 1, example_hit 2 150 2, example_hit 3 100 3]))"

definition example_service :: service where
  "example_service = \<lparr>es_search = example_search, translator = None, str_lower = id\<rparr>"

definition exact_failing_search :: "search_body \<Rightarrow> es_error + hit list" where
  "exact_failing_search body =
     (case body_pass body of ExactPass \<Rightarrow> Inl ConnectionError | _ \<Rightarrow> example_search body)"

definition exact_failing_service :: service where
  "exact_failing_service =
     \<lparr>es_search = exact_failing_search, translator = None, str_lower = id\<rparr>"

definition unreachable_search :: "search_body \<Rightarrow> es_error + hit list" where
  "unreachable_search body = Inl ConnectionError"

definition unreachable_service :: service where
  "unreachable_service = \<lparr>es_search = unreachable_search, translator = None, str_lower = id\<rparr>"

lemmas retrieval_defs =
  search_with_priority_layers_def priority_layers_def relevant_pass_def similar_pass_def
  tag_and_sort_def english_query_def py_strip_def
  is_space_def get_exact_matches_english_def get_relevant_matches_def
  get_similar_matches_def exact_doc_def plain_doc_def tag_def tiered_key_ge_def
  sorted_desc_def py_take_def example_hit_def not_excluded_def example_search_def
  example_service_def exact_failing_search_def exact_failing_service_def
  unreachable_search_def unreachable_service_def

section \<open>backend/search/query\_processor.py and the search endpoint of backend/main.py\<close>

text \<open>
  The translator, the embedding generator and the construction of the optimized query
  (whose term order depends on \<open>set\<close> iteration) are parameters. Every call to a
  collaborator is recorded, so that a result comes with the list of calls it made.
\<close>

datatype call = TranslateCall py_str | EmbeddingCall py_str | RetrievalCall py_str | StoreCall

record query_env =
  translate_mongolian_to_english :: "py_str \<Rightarrow> py_exn + py_str"
  generate_embedding :: "py_str \<Rightarrow> py_exn + real list"
  reduce_embedding :: "real list \<Rightarrow> py_exn + real list"
  create_optimized_search_query :: "py_str \<Rightarrow> py_str \<Rightarrow> py_str"

text \<open>\<open>create_structured_text\<close>; the labels are \<open>"Position: "\<close> and \<open>"Description: "\<close>.\<close>

definition create_structured_text :: "py_str \<Rightarrow> py_str \<Rightarrow> py_str" where
  "create_structured_text pos desc =
     (if pos = [] \<and> desc = [] then []
      else (let p = (if pos \<noteq> [] then [[80, 111, 115, 105, 116, 105, 111, 110, 58, 32] @ pos]
                     else []);
                d = (if desc \<noteq> []
                     then [[68, 101, 115, 99, 114, 105, 112, 116, 105, 111, 110, 58, 32] @ desc]
                     else [])
            in case p @ d of
                 [] \<Rightarrow> []
               | [x] \<Rightarrow> x
               | x # y # _ \<Rightarrow> x @ [10] @ y))"

definition translate_if :: "query_env \<Rightarrow> py_str \<Rightarrow> (py_exn + py_str) \<times> call list" where
  "translate_if env s =
     (if s \<noteq> [] then (translate_mongolian_to_english env s, [TranslateCall s])
      else (Inr [], []))"

text \<open>The embedding of the structured text: any failure gives \<open>None\<close>.\<close>

definition query_embedding :: "query_env \<Rightarrow> py_str \<Rightarrow> real list option \<times> call list" where
  "query_embedding env structured_en =
     (if structured_en \<noteq> [] then
        ((case generate_embedding env structured_en of
            Inl e \<Rightarrow> None
          | Inr raw \<Rightarrow>
              (if raw \<noteq> [] then
                 (case reduce_embedding env raw of Inl e \<Rightarrow> None | Inr v \<Rightarrow> Some v)
               else None)),
         [EmbeddingCall structured_en])
      else (None, []))"

type_synonym processed = "py_str \<times> py_str \<times> py_str \<times> real list option"

text \<open>The part of \<open>process_query\<close> after the check for an empty query, inside its \<open>try\<close>.\<close>

definition process_query_try ::
  "query_env \<Rightarrow> py_str \<Rightarrow> py_str \<Rightarrow> (py_exn + processed) \<times> call list" where
  "process_query_try env position_mn description_mn =
     (case translate_if env position_mn of
        (Inl e, c1) \<Rightarrow> (Inl e, c1)
      | (Inr position_en, c1) \<Rightarrow>
          (case translate_if env description_mn of
             (Inl e, c2) \<Rightarrow> (Inl e, c1 @ c2)
           | (Inr description_en, c2) \<Rightarrow>
               (let structured_mn = create_structured_text position_mn description_mn;
                    structured_en = create_structured_text position_en description_en;
                    combined_query = create_optimized_search_query env position_en description_en;
                    emb = query_embedding env structured_en
                in (Inr (combined_query, structured_mn, structured_en, fst emb),
                    c1 @ c2 @ snd emb))))"

definition process_query :: "query_env \<Rightarrow> py_str \<Rightarrow> py_str \<Rightarrow> processed \<times> call list" where
  "process_query env pos desc =
     (let position_mn = py_strip pos;
          description_mn = py_strip desc
      in if position_mn = [] \<and> description_mn = [] then (([], [], [], None), [])
         else (case process_query_try env position_mn description_mn of
                 (Inr r, c) \<Rightarrow> (r, c)
               | (Inl e, c) \<Rightarrow>
                   ((py_strip (position_mn @ [32] @ description_mn),
                     create_structured_text position_mn description_mn,
                     create_structured_text position_mn description_mn,
                     None), c)))"

text \<open>
  The endpoint \<open>search_candidates\<close>. An exception is an \<open>HTTPException\<close> with its status
  and detail, or any other exception. \<open>rest\<close> is the endpoint after the check of the
  processed query (retrieval, scoring, education, saving the search), with the calls it
  makes. The body of the \<open>try\<close> comes first, then the function with its handler
  \<open>except Exception\<close>, which also catches the \<open>HTTPException\<close> raised in the body.
\<close>

datatype endpoint_exn = HTTPException nat string | OtherException

record search_request =
  position :: py_str
  description :: py_str

definition search_candidates_try ::
  "query_env \<Rightarrow> (search_request \<Rightarrow> processed \<Rightarrow> (endpoint_exn + 'r) \<times> call list) \<Rightarrow>
   search_request \<Rightarrow> (endpoint_exn + 'r) \<times> call list" where
  "search_candidates_try env rest req =
     (case process_query env (position req) (description req) of
        ((combined_query, structured_mn, structured_en, emb), c) \<Rightarrow>
          (if combined_query = [] \<and> structured_en = []
           then (Inl (HTTPException 400 ''Invalid or empty search query''), c)
           else (case rest req (combined_query, structured_mn, structured_en, emb) of
                   (res, c') \<Rightarrow> (res, c @ c'))))"

definition search_candidates ::
  "query_env \<Rightarrow> (search_request \<Rightarrow> processed \<Rightarrow> (endpoint_exn + 'r) \<times> call list) \<Rightarrow>
   search_request \<Rightarrow> (endpoint_exn + 'r) \<times> call list" where
  "search_candidates env rest req =
     (case search_candidates_try env rest req of
        (Inl e, c) \<Rightarrow> (Inl (HTTPException 500 ''Internal server error''), c)
      | (Inr r, c) \<Rightarrow> (Inr r, c))"

text \<open>
  Example collaborators: a translator that returns its input, an embedding generator that
  fails, and a continuation of the endpoint that records one retrieval call.
\<close>

definition example_env :: query_env where
  "example_env =
     \<lparr>translate_mongolian_to_english = (\<lambda>s. Inr s),
      generate_embedding = (\<lambda>s. Inl KeyError),
      reduce_embedding = (\<lambda>v. Inr v),
      create_optimized_search_query = (\<lambda>p d. p)\<rparr>"

definition example_rest :: "search_request \<Rightarrow> processed \<Rightarrow> (endpoint_exn + nat) \<times> call list" where
  "example_rest req p = (Inr 0, [RetrievalCall (fst p)])"

section \<open>Sorting and slicing\<close>

lemma set_insort_desc: "set (insort_desc ge x xs) = insert x (set xs)"
  by (induction xs) auto

lemma length_insort_desc: "length (insort_desc ge x xs) = Suc (length xs)"
  by (induction xs) auto

lemma set_sorted_desc: "set (sorted_desc ge xs) = set xs"
  by (induction xs) (simp_all add: sorted_desc_def set_insort_desc)

lemma length_sorted_desc: "length (sorted_desc ge xs) = length xs"
  by (induction xs) (simp_all add: sorted_desc_def length_insort_desc)

lemma length_py_take_mono:
  "length xs \<le> length ys \<Longrightarrow> length (py_take limit xs) \<le> length (py_take limit ys)"
  by (auto simp: py_take_def)

section \<open>Aggregation by candidate\<close>

lemma keys_add_experience:
  "map fst (add_experience c e acc) =
     (if c \<in> set (map fst acc) then map fst acc else map fst acc @ [c])"
  by (induction acc) force+

lemma distinct_add_experience:
  "distinct (map fst acc) \<Longrightarrow> distinct (map fst (add_experience c e acc))"
  by (simp add: keys_add_experience)

lemma distinct_keys_foldl:
  "distinct (map fst acc) \<Longrightarrow>
   distinct (map fst (foldl (\<lambda>a r. add_experience (k r) (f r) a) acc rows))"
  by (induction rows arbitrary: acc) (simp_all add: distinct_add_experience)

lemma distinct_keys_aggregate: "distinct (map fst (aggregate today rows))"
  by (simp add: aggregate_def distinct_keys_foldl)

lemma values_add_experience:
  "(k, es) \<in> set (add_experience c e acc) \<Longrightarrow>
   x \<in> set es \<Longrightarrow> x = e \<or> (\<exists>k' es'. (k', es') \<in> set acc \<and> x \<in> set es')"
  by (induction acc) (fastforce split: if_splits)+

lemma values_foldl:
  "(k, es) \<in> set (foldl (\<lambda>a r. add_experience (key r) (f r) a) acc rows) \<Longrightarrow>
   x \<in> set es \<Longrightarrow> x \<in> f ` set rows \<or> (\<exists>k' es'. (k', es') \<in> set acc \<and> x \<in> set es')"
proof (induction rows arbitrary: acc)
  case Nil
  then show ?case by auto
next
  case (Cons r rows)
  from Cons.IH [of "add_experience (key r) (f r) acc"] Cons.prems
  have "x \<in> f ` set rows \<or>
        (\<exists>k' es'. (k', es') \<in> set (add_experience (key r) (f r) acc) \<and> x \<in> set es')"
    by simp
  then show ?case
    using values_add_experience [of _ _ "key r" "f r" acc x] by auto
qed

lemma values_aggregate:
  "ce \<in> set (aggregate today rows) \<Longrightarrow> e \<in> set (snd ce) \<Longrightarrow> e \<in> row_exp_data today ` set rows"
  using values_foldl [of "fst ce" "snd ce" candidate_id "row_exp_data today" "[]" rows e]
  by (simp add: aggregate_def)

lemma set_py_take_subset: "set (py_take limit xs) \<subseteq> set xs"
  by (auto simp: py_take_def dest: in_set_takeD)

lemma candidate_response_cases:
  "candidate_response t ce = [] \<or>
   (\<exists>rs. filter (\<lambda>e. t < combined_score e) (snd ce) \<noteq> [] \<and>
         make_all (filter (\<lambda>e. t < combined_score e) (snd ce)) = Inr rs \<and>
         candidate_response t ce =
           [\<lparr>c_candidate_id = fst ce,
             final_score = calculate_candidate_final_score_fixed (snd ce),
             experiences = rs\<rparr>])"
  by (simp add: candidate_response_def Let_def split: sum.splits)

lemma candidate_response_origin:
  "c \<in> set (candidate_response t ce) \<Longrightarrow>
   c_candidate_id c = fst ce \<and> final_score c = calculate_candidate_final_score_fixed (snd ce)"
  using candidate_response_cases [of t ce] by auto

lemma tier_result_origin:
  assumes "c \<in> set (score_tier_based_results_fixed today results t limit)"
  shows "\<exists>ce\<in>set (aggregate today (sorted_desc tier_key_ge results)).
           c_candidate_id c = fst ce \<and>
           final_score c = calculate_candidate_final_score_fixed (snd ce)"
proof -
  from assms have "c \<in> set (concat (map (candidate_response t)
      (aggregate today (sorted_desc tier_key_ge results))))"
    using set_py_take_subset
    by (fastforce simp: score_tier_based_results_fixed_def Let_def set_sorted_desc)
  then obtain ce where "ce \<in> set (aggregate today (sorted_desc tier_key_ge results))"
    and "c \<in> set (candidate_response t ce)" by auto
  then show ?thesis using candidate_response_origin by blast
qed

section \<open>The final score does not depend on the threshold\<close>

text \<open>
  Claim C10. In the tier-based scoring, a candidate's final score is computed from all of
  its experiences before the threshold filters them: a candidate returned under two
  thresholds (same rows, same limit) has the same final score in both results.
\<close>

theorem final_score_threshold_independent:
  assumes "c1 \<in> set (score_tier_based_results_fixed today results t1 limit)"
    and "c2 \<in> set (score_tier_based_results_fixed today results t2 limit)"
    and "c_candidate_id c1 = c_candidate_id c2"
  shows "final_score c1 = final_score c2"
proof -
  let ?G = "aggregate today (sorted_desc tier_key_ge results)"
  obtain ce1 where 1: "ce1 \<in> set ?G" "c_candidate_id c1 = fst ce1"
    "final_score c1 = calculate_candidate_final_score_fixed (snd ce1)"
    using tier_result_origin [OF assms(1)] by blast
  obtain ce2 where 2: "ce2 \<in> set ?G" "c_candidate_id c2 = fst ce2"
    "final_score c2 = calculate_candidate_final_score_fixed (snd ce2)"
    using tier_result_origin [OF assms(2)] by blast
  have "inj_on fst (set ?G)"
    using distinct_keys_aggregate [of today "sorted_desc tier_key_ge results"]
    by (simp add: distinct_map)
  with 1 2 assms(3) have "ce1 = ce2" by (auto dest: inj_onD)
  with 1 2 show ?thesis by simp
qed

text \<open>
  One candidate with an exact and a similar experience: threshold 0.1 lists both
  experiences, threshold 50 lists one, and the final score is the same.
\<close>

theorem final_score_threshold_independent_witness:
  "(let rows = [example_row 1 ''exact'' 0, example_row 1 ''similar'' 0];
        a = score_tier_based_results_fixed 0 rows 0.1 10;
        b = score_tier_based_results_fixed 0 rows 50 10
    in hd a \<in> set a \<and> hd b \<in> set b \<and>
       c_candidate_id (hd a) = c_candidate_id (hd b) \<and>
       final_score (hd a) = final_score (hd b) \<and>
       final_score (hd a) = 1130.11 \<and>
       length (experiences (hd a)) = 2 \<and> length (experiences (hd b)) = 1)"
  using final_score_threshold_independent
    [of "hd (score_tier_based_results_fixed 0
              [example_row 1 ''exact'' 0, example_row 1 ''similar'' 0] 0.1 10)"
        0 "[example_row 1 ''exact'' 0, example_row 1 ''similar'' 0]" "0.1" 10
        "hd (score_tier_based_results_fixed 0
              [example_row 1 ''exact'' 0, example_row 1 ''similar'' 0] 50 10)" 50]
  by (simp add: scorer_defs)

section \<open>The candidate count and the threshold\<close>

lemma make_ExperienceResponse_valid:
  "exp_valid e \<Longrightarrow> \<exists>r. make_ExperienceResponse e = Inr r"
  by (auto simp: exp_valid_def make_ExperienceResponse_def)

lemma make_all_valid:
  "\<forall>e\<in>set es. exp_valid e \<Longrightarrow> \<exists>rs. make_all es = Inr rs \<and> length rs = length es"
proof (induction es)
  case Nil
  then show ?case by simp
next
  case (Cons e es)
  then obtain rs where "make_all es = Inr rs" "length rs = length es" by auto
  moreover obtain r where "make_ExperienceResponse e = Inr r"
    using Cons.prems make_ExperienceResponse_valid by auto
  ultimately show ?case by simp
qed

lemma row_exp_data_valid: "row_valid r \<Longrightarrow> exp_valid (row_exp_data today r)"
  by (auto simp: row_valid_def exp_valid_def row_exp_data_def Let_def dict_get_def
      split: field.splits)

lemma legacy_exp_data_valid: "row_valid r \<Longrightarrow> exp_valid (legacy_exp_data s today r)"
  by (auto simp: row_valid_def exp_valid_def legacy_exp_data_def dict_get_def
      split: field.splits)

lemma values_legacy_aggregate:
  "ce \<in> set (legacy_aggregate s today rows) \<Longrightarrow> e \<in> set (snd ce) \<Longrightarrow>
   e \<in> legacy_exp_data s today ` set rows"
  using values_foldl [of "fst ce" "snd ce" candidate_id "legacy_exp_data s today" "[]" rows e]
  by (simp add: legacy_aggregate_def)

lemma filter_nonempty_iff: "filter P xs \<noteq> [] \<longleftrightarrow> (\<exists>x\<in>set xs. P x)"
  by (simp add: filter_empty_conv)

lemma candidate_response_length:
  assumes "\<forall>e\<in>set (snd ce). exp_valid e"
  shows "length (candidate_response t ce) =
           (if \<exists>e\<in>set (snd ce). t < combined_score e then 1 else 0)"
proof -
  obtain rs where "make_all (filter (\<lambda>e. t < combined_score e) (snd ce)) = Inr rs"
    using make_all_valid [of "filter (\<lambda>e. t < combined_score e) (snd ce)"] assms by auto
  then show ?thesis
    by (simp add: candidate_response_def Let_def filter_empty_conv)
qed

lemma tier_candidates_length:
  "\<forall>ce\<in>set G. \<forall>e\<in>set (snd ce). exp_valid e \<Longrightarrow>
   length (concat (map (candidate_response t) G)) = n_above t G"
  by (induction G) (simp_all add: n_above_def candidate_response_length)

lemma legacy_candidate_length:
  assumes "\<forall>e\<in>set (snd ce). exp_valid e"
  shows "\<exists>cs. legacy_candidate t ce = Inr cs \<and>
           length cs = (if \<exists>e\<in>set (snd ce). t < combined_score e then 1 else 0)"
proof -
  obtain rs where rs: "make_all (filter (\<lambda>e. t < combined_score e) (snd ce)) = Inr rs"
    "length rs = length (filter (\<lambda>e. t < combined_score e) (snd ce))"
    using make_all_valid [of "filter (\<lambda>e. t < combined_score e) (snd ce)"] assms by auto
  have "rs \<noteq> [] \<longleftrightarrow> (\<exists>e\<in>set (snd ce). t < combined_score e)"
    using rs(2) by (metis filter_empty_conv length_0_conv)
  then show ?thesis using rs(1)
    by (simp add: legacy_candidate_def Let_def)
qed

lemma legacy_candidates_length:
  "\<forall>ce\<in>set G. \<forall>e\<in>set (snd ce). exp_valid e \<Longrightarrow>
   \<exists>cs. legacy_candidates t G = Inr cs \<and> length cs = n_above t G"
proof (induction G)
  case Nil
  then show ?case by (simp add: n_above_def)
next
  case (Cons ce G)
  then obtain ds where ds: "legacy_candidates t G = Inr ds" "length ds = n_above t G" by auto
  obtain cs where cs: "legacy_candidate t ce = Inr cs"
      "length cs = (if \<exists>e\<in>set (snd ce). t < combined_score e then 1 else 0)"
    using legacy_candidate_length [of ce t] Cons.prems by auto
  show ?case using ds cs by (simp add: n_above_def)
qed

lemma length_filter_mono:
  "(\<And>x. x \<in> set xs \<Longrightarrow> P x \<Longrightarrow> Q x) \<Longrightarrow> length (filter P xs) \<le> length (filter Q xs)"
  by (induction xs) auto

lemma n_above_antitone: "t1 \<le> t2 \<Longrightarrow> n_above t2 G \<le> n_above t1 G"
  unfolding n_above_def by (rule length_filter_mono) force

lemma tier_groups_valid:
  assumes "\<forall>r\<in>set results. row_valid r"
  shows "\<forall>ce\<in>set (aggregate today (sorted_desc tier_key_ge results)).
           \<forall>e\<in>set (snd ce). exp_valid e"
proof (intro ballI)
  fix ce e
  assume "ce \<in> set (aggregate today (sorted_desc tier_key_ge results))" "e \<in> set (snd ce)"
  then have "e \<in> row_exp_data today ` set (sorted_desc tier_key_ge results)"
    by (rule values_aggregate)
  then show "exp_valid e"
    using assms row_exp_data_valid by (auto simp: set_sorted_desc)
qed

lemma legacy_groups_valid:
  assumes "\<forall>r\<in>set results. row_valid r"
  shows "\<forall>ce\<in>set (legacy_aggregate s today results). \<forall>e\<in>set (snd ce). exp_valid e"
proof (intro ballI)
  fix ce e
  assume "ce \<in> set (legacy_aggregate s today results)" "e \<in> set (snd ce)"
  then have "e \<in> legacy_exp_data s today ` set results"
    by (rule values_legacy_aggregate)
  then show "exp_valid e"
    using assms legacy_exp_data_valid by auto
qed

lemma tier_count:
  assumes "\<forall>r\<in>set results. row_valid r"
  shows "\<exists>cs. score_tier_based_results_fixed today results t limit = py_take limit cs \<and>
           length cs = n_above t (aggregate today (sorted_desc tier_key_ge results))"
proof -
  let ?cs = "concat (map (candidate_response t)
               (aggregate today (sorted_desc tier_key_ge results)))"
  have "length ?cs = n_above t (aggregate today (sorted_desc tier_key_ge results))"
    by (rule tier_candidates_length [OF tier_groups_valid [OF assms]])
  then have "length (sorted_desc final_score_ge ?cs) =
      n_above t (aggregate today (sorted_desc tier_key_ge results))"
    by (simp add: length_sorted_desc)
  moreover have "score_tier_based_results_fixed today results t limit =
      py_take limit (sorted_desc final_score_ge ?cs)"
    by (simp add: score_tier_based_results_fixed_def Let_def)
  ultimately show ?thesis by blast
qed

lemma legacy_count:
  assumes "\<forall>r\<in>set results. row_valid r"
  shows "\<exists>cs. score_legacy_results s today results t limit = Inr (py_take limit cs) \<and>
           length cs = n_above t (legacy_aggregate s today results)"
proof -
  obtain cs where "legacy_candidates t (legacy_aggregate s today results) = Inr cs"
    "length cs = n_above t (legacy_aggregate s today results)"
    using legacy_candidates_length [OF legacy_groups_valid [OF assms]] by blast
  then have "score_legacy_results s today results t limit =
      Inr (py_take limit (sorted_desc final_score_ge cs))"
    "length (sorted_desc final_score_ge cs) = n_above t (legacy_aggregate s today results)"
    by (simp_all add: score_legacy_results_def length_sorted_desc)
  then show ?thesis by blast
qed

text \<open>
  Claim C6, as the code has it. A candidate whose response cannot be built is skipped, and
  only the experiences above the threshold are validated: with a row whose company name
  is null, the candidate is dropped at threshold 0.1 and returned at threshold 5, so the
  count grows with the threshold.
\<close>

theorem candidate_count_not_antitone:
  "(0.1::real) \<le> 5 \<and>
   score_and_rank_candidates default_scorer 0
     [example_row 1 ''exact'' 0, (example_row 1 ''similar'' 0)\<lparr>company_name := Null\<rparr>] 0.1 10 = Inr [] \<and>
   score_and_rank_candidates default_scorer 0
     [example_row 1 ''exact'' 0, (example_row 1 ''similar'' 0)\<lparr>company_name := Null\<rparr>] 5 10 =
     Inr [\<lparr>c_candidate_id = 1, final_score = 1130.11,
           experiences = [\<lparr>r_content = ''x'', r_structured_content_mn = [], r_company_name = ''y'',
             r_position_title = ''z'', r_years = 0, r_combined_score = 130,
             r_match_tier = Some ''exact'', r_elasticsearch_score = Some 0,
             r_tier_priority = Some 1000000\<rparr>]\<rparr>]"
  by (simp add: eval_defs)

text \<open>
  Claim C6, amended: when no row has a null text column, the number of candidates
  returned by \<open>score_and_rank_candidates\<close> (tier-based or legacy mode, any limit) does
  not grow when the threshold is raised, and the call returns normally.
\<close>

theorem candidate_count_antitone:
  assumes valid: "\<forall>r\<in>set results. row_valid r" and le: "t1 \<le> t2"
  shows "\<exists>c1 c2. score_and_rank_candidates s today results t1 limit = Inr c1 \<and>
                 score_and_rank_candidates s today results t2 limit = Inr c2 \<and>
                 length c2 \<le> length c1"
proof (cases "has_tiers results")
  case True
  let ?G = "aggregate today (sorted_desc tier_key_ge results)"
  obtain a where a: "score_tier_based_results_fixed today results t1 limit = py_take limit a"
    "length a = n_above t1 ?G" using tier_count [OF valid] by blast
  obtain b where b: "score_tier_based_results_fixed today results t2 limit = py_take limit b"
    "length b = n_above t2 ?G" using tier_count [OF valid] by blast
  have "length b \<le> length a" using a(2) b(2) n_above_antitone [OF le] by simp
  then have "length (py_take limit b) \<le> length (py_take limit a)"
    by (rule length_py_take_mono)
  with True a(1) b(1) show ?thesis by (simp add: score_and_rank_candidates_def)
next
  case False
  let ?G = "legacy_aggregate s today results"
  obtain a where a: "score_legacy_results s today results t1 limit = Inr (py_take limit a)"
    "length a = n_above t1 ?G" using legacy_count [OF valid] by blast
  obtain b where b: "score_legacy_results s today results t2 limit = Inr (py_take limit b)"
    "length b = n_above t2 ?G" using legacy_count [OF valid] by blast
  have "length b \<le> length a" using a(2) b(2) n_above_antitone [OF le] by simp
  then have "length (py_take limit b) \<le> length (py_take limit a)"
    by (rule length_py_take_mono)
  with False a(1) b(1) show ?thesis by (simp add: score_and_rank_candidates_def)
qed

theorem candidate_count_antitone_witness:
  "row_valid (example_row 1 ''exact'' 0) \<and> row_valid (example_row 2 ''similar'' 0) \<and>
   (0.1::real) \<le> 5 \<and>
   (\<exists>c1 c2.
      score_and_rank_candidates default_scorer 0
        [example_row 1 ''exact'' 0, example_row 2 ''similar'' 0] 0.1 10 = Inr c1 \<and>
      score_and_rank_candidates default_scorer 0
        [example_row 1 ''exact'' 0, example_row 2 ''similar'' 0] 5 10 = Inr c2 \<and>
      length c2 \<le> length c1 \<and>
      map c_candidate_id c1 = [1, 2] \<and> map c_candidate_id c2 = [1])"
  using candidate_count_antitone
    [of "[example_row 1 ''exact'' 0, example_row 2 ''similar'' 0]" "0.1" 5 default_scorer 0 10]
  by (simp add: eval_defs)

section \<open>Score bands and the exact boost\<close>

text \<open>
  Claim C2 at a concrete input. The retrieval score enters the base score unclamped, so
  the bands overlap: an exact experience with retrieval score 0 scores 130, a relevant
  one with retrieval score 100000 and six years scores 154, and a similar one with
  retrieval score 150000 scores 17.6, above the relevant score 12.
\<close>

theorem relevant_score_exceeds_exact_score:
  "calculate_tier_score_fixed (example_row 1 ''exact'' 0) 0 = 130 \<and>
   calculate_tier_score_fixed (example_row 2 ''relevant'' 100000) 6 = 154 \<and>
   calculate_tier_score_fixed (example_row 3 ''similar'' 150000) 0 = 17.6 \<and>
   calculate_tier_score_fixed (example_row 2 ''relevant'' 0) 0 = 12"
  by (simp add: eval_defs)

text \<open>
  Claim C1 at a concrete input. Candidate 1 has one exact experience (final score
  1000 + 130); candidate 2 has one relevant experience with retrieval score 1000000
  (final score 1212) and is ranked first.
\<close>

theorem non_exact_candidate_outranks_exact:
  "map (\<lambda>c. (c_candidate_id c, final_score c))
     (score_tier_based_results_fixed 0
        [example_row 1 ''exact'' 0, example_row 2 ''relevant'' 1000000] 0.1 10) =
   [(2, 1212), (1, 1130)]"
  by (simp add: eval_defs)

text \<open>
  Claim C5 at a concrete input. The experiences of a candidate are listed by tier and
  retrieval score, not by experience score, and the additional score reads positions 1
  and 2 of that list. With two exact experiences, the one with the lower retrieval score
  and the longer tenure is the best (160.64) and stands at position 1: it is added a
  second time, and the other experience (130.65) is not counted.
\<close>

theorem best_experience_counted_twice:
  "map combined_score (snd (hd (aggregate 0 (sorted_desc tier_key_ge
      [example_row 1 ''exact'' 50, long_tenure_row 1 ''exact'' 40])))) = [130.65, 160.64] \<and>
   map final_score (score_tier_based_results_fixed 0
      [example_row 1 ''exact'' 50, long_tenure_row 1 ''exact'' 40] 0.1 10) = [1176.704] \<and>
   spec_final_score (snd (hd (aggregate 0 (sorted_desc tier_key_ge
      [example_row 1 ''exact'' 50, long_tenure_row 1 ''exact'' 40])))) = 1173.705"
  by (simp add: eval_defs long_tenure_row_def spec_final_score_def)

section \<open>Fusion of lexical and semantic matches\<close>

lemma es_loop_snd: "snd (es_loop fl sm es (acc, seen)) = seen \<union> es_id ` set es"
  by (induction es arbitrary: acc seen) auto

lemma es_loop_acc_mem: "x \<in> set acc \<Longrightarrow> x \<in> set (fst (es_loop fl sm es (acc, seen)))"
  by (induction es arbitrary: acc seen) auto

lemma es_loop_acc: "set acc \<subseteq> set (fst (es_loop fl sm es (acc, seen)))"
  using es_loop_acc_mem by blast


lemma es_loop_first:
  "es_id e \<notin> seen \<Longrightarrow> es_id e \<notin> es_id ` set pre \<Longrightarrow>
   fuse_es fl sm e \<in> set (fst (es_loop fl sm (pre @ e # post) (acc, seen)))"
proof (induction pre arbitrary: acc seen)
  case Nil
  then show ?case using es_loop_acc [of "acc @ [fuse_es fl sm e]" fl sm post "insert (es_id e) seen"]
    by auto
next
  case (Cons p pre)
  then show ?case by auto
qed

lemma sem_loop_set:
  "set (sem_loop fl seen sems acc) = set acc \<union> fuse_sem fl ` {s \<in> set sems. sem_id s \<notin> seen}"
  by (induction sems arbitrary: acc) auto

lemma semantic_map_spec:
  "(case semantic_map sems i of None \<Rightarrow> 0 | Some s \<Rightarrow> (case sem_norm_cos_sim s of None \<Rightarrow> 0 | Some v \<Rightarrow> v))
   = spec_semantic sems i"
proof -
  have "map_of (map (\<lambda>s. (sem_id s, s)) xs) i = find (\<lambda>s. sem_id s = i) xs"
    for xs :: "semantic_result list"
    by (induction xs) auto
  then show ?thesis
    by (simp add: semantic_map_def spec_semantic_def rev_map)
qed

lemma fuse_es_spec:
  "f_id (fuse_es fl (semantic_map sems) e) = es_id e \<and>
   f_match_tier (fuse_es fl (semantic_map sems) e) = es_match_tier e \<and>
   combined_search_score (fuse_es fl (semantic_map sems) e) =
     fst (spec_weights (es_match_tier e)) * spec_lexical_norm e +
     snd (spec_weights (es_match_tier e)) * spec_semantic sems (es_id e)"
  using semantic_map_spec [of sems "es_id e"]
  by (auto simp: fuse_es_def Let_def spec_weights_def spec_lexical_norm_def split: option.splits)

lemma combine_set:
  "set (combine_results_with_tier_weights fl es sems) =
     set (fst (es_loop fl (semantic_map sems) es ([], {}))) \<union>
     fuse_sem fl ` {s \<in> set sems. sem_id s \<notin> es_id ` set es}"
  by (simp add: combine_results_with_tier_weights_def Let_def set_sorted_desc sem_loop_set
      es_loop_snd)


text \<open>The fusion of the example inputs, with the sort key rounded to the grid and exact.\<close>

lemma example_fusion_grid:
  "combine_results_with_tier_weights round_to_grid example_es_results
     example_semantic_results =
     [\<lparr>f_id = 1, f_candidate_id = 10, f_match_tier = Some ''exact'',
        f_elasticsearch_score = Some 5000, combined_search_score = 0.45,
        f_tier_priority = 1000000, es_component_score = 0.5,
        semantic_component_score = 0, f_final_score = round_to_grid 1000000.45\<rparr>,
      \<lparr>f_id = 2, f_candidate_id = 11, f_match_tier = Some ''relevant'',
        f_elasticsearch_score = Some 20000, combined_search_score = 0.9,
        f_tier_priority = 100000, es_component_score = 1,
        semantic_component_score = 0.8, f_final_score = round_to_grid 100000.9\<rparr>,
      \<lparr>f_id = 3, f_candidate_id = 12, f_match_tier = Some ''similar'',
        f_elasticsearch_score = Some 1000, combined_search_score = 0.01,
        f_tier_priority = 10000, es_component_score = 0.1,
        semantic_component_score = 0, f_final_score = round_to_grid 10000.01\<rparr>,
      \<lparr>f_id = 9, f_candidate_id = 13, f_match_tier = Some ''semantic_only'',
        f_elasticsearch_score = Some 0, combined_search_score = 0.45,
        f_tier_priority = 5000, es_component_score = 0,
        semantic_component_score = 0.5, f_final_score = round_to_grid 5000.45\<rparr>]"
  by (simp add: combine_results_with_tier_weights_def semantic_map_def fuse_es_def
      fuse_sem_def fused_final_ge_def sorted_desc_def round_to_grid_def Let_def
      example_es_results_def example_semantic_results_def)


text \<open>
  Claim C4. Every lexical match that the first loop processes (the first match with its
  experience id: a later match with an id already seen is skipped) has a result whose
  fused score is the weighted sum of the clamped lexical score and the semantic score of
  its id, with the weights of its tier; every semantic match whose id is in no lexical
  match has a result of tier \<open>semantic_only\<close> with fused score 0.9 times its similarity.
  This holds whatever the rounding \<open>fl\<close> of the sort key.
\<close>

theorem fused_scores:
  "(\<forall>pre e post. es_results = pre @ e # post \<and> es_id e \<notin> es_id ` set pre \<longrightarrow>
      (\<exists>r\<in>set (combine_results_with_tier_weights fl es_results semantic_results).
         f_id r = es_id e \<and> f_match_tier r = es_match_tier e \<and>
         combined_search_score r =
           fst (spec_weights (es_match_tier e)) * spec_lexical_norm e +
           snd (spec_weights (es_match_tier e)) * spec_semantic semantic_results (es_id e))) \<and>
   (\<forall>s\<in>set semantic_results. sem_id s \<notin> es_id ` set es_results \<longrightarrow>
      (\<exists>r\<in>set (combine_results_with_tier_weights fl es_results semantic_results).
         f_id r = sem_id s \<and> f_match_tier r = Some ''semantic_only'' \<and>
         combined_search_score r =
           0.9 * (case sem_norm_cos_sim s of None \<Rightarrow> 0 | Some v \<Rightarrow> v)))"
proof (intro conjI allI impI ballI)
  fix pre e post
  assume "es_results = pre @ e # post \<and> es_id e \<notin> es_id ` set pre"
  then have "fuse_es fl (semantic_map semantic_results) e
      \<in> set (combine_results_with_tier_weights fl es_results semantic_results)"
    using es_loop_first [of e "{}" pre fl "semantic_map semantic_results" post "[]"]
    by (simp add: combine_set)
  then show "\<exists>r\<in>set (combine_results_with_tier_weights fl es_results semantic_results).
         f_id r = es_id e \<and> f_match_tier r = es_match_tier e \<and>
         combined_search_score r =
           fst (spec_weights (es_match_tier e)) * spec_lexical_norm e +
           snd (spec_weights (es_match_tier e)) * spec_semantic semantic_results (es_id e)"
    using fuse_es_spec [of fl semantic_results e] by blast
next
  fix s
  assume "s \<in> set semantic_results" "sem_id s \<notin> es_id ` set es_results"
  then have "fuse_sem fl s \<in> set (combine_results_with_tier_weights fl es_results semantic_results)"
    by (simp add: combine_set)
  moreover have "f_id (fuse_sem fl s) = sem_id s \<and> f_match_tier (fuse_sem fl s) = Some ''semantic_only'' \<and>
      combined_search_score (fuse_sem fl s) =
        0.9 * (case sem_norm_cos_sim s of None \<Rightarrow> 0 | Some v \<Rightarrow> v)"
    by (simp add: fuse_sem_def Let_def)
  ultimately show "\<exists>r\<in>set (combine_results_with_tier_weights fl es_results semantic_results).
         f_id r = sem_id s \<and> f_match_tier r = Some ''semantic_only'' \<and>
         combined_search_score r =
           0.9 * (case sem_norm_cos_sim s of None \<Rightarrow> 0 | Some v \<Rightarrow> v)"
    by blast
qed

theorem fused_scores_witness:
  "example_es_results = [] @ hd example_es_results # tl example_es_results \<and>
   es_id (hd example_es_results) \<notin> es_id ` set [] \<and>
   (\<exists>r\<in>set (combine_results_with_tier_weights round_to_grid example_es_results example_semantic_results).
      f_id r = 1 \<and> f_match_tier r = Some ''exact'' \<and>
      combined_search_score r = 0.9 * min (5000 / 10000) 1 + 0.1 * 0) \<and>
   last example_semantic_results \<in> set example_semantic_results \<and>
   sem_id (last example_semantic_results) \<notin> es_id ` set example_es_results \<and>
   (\<exists>r\<in>set (combine_results_with_tier_weights round_to_grid example_es_results example_semantic_results).
      f_id r = 9 \<and> f_match_tier r = Some ''semantic_only'' \<and>
      combined_search_score r = 0.9 * 0.5) \<and>
   map (\<lambda>r. (f_id r, f_match_tier r, combined_search_score r))
     (combine_results_with_tier_weights round_to_grid example_es_results example_semantic_results) =
   [(1, Some ''exact'', 0.45), (2, Some ''relevant'', 0.9),
    (3, Some ''similar'', 0.01), (9, Some ''semantic_only'', 0.45)]"
proof -
  note inst = fused_scores [of example_es_results round_to_grid example_semantic_results]
  have 1: "example_es_results = [] @ hd example_es_results # tl example_es_results \<and>
      es_id (hd example_es_results) \<notin> es_id ` set []"
    by (simp add: example_es_results_def)
  have 2: "last example_semantic_results \<in> set example_semantic_results"
    "sem_id (last example_semantic_results) \<notin> es_id ` set example_es_results"
    by (simp_all add: example_es_results_def example_semantic_results_def)
  have a: "\<exists>r\<in>set (combine_results_with_tier_weights round_to_grid example_es_results example_semantic_results).
      f_id r = es_id (hd example_es_results) \<and>
      f_match_tier r = es_match_tier (hd example_es_results) \<and>
      combined_search_score r =
        fst (spec_weights (es_match_tier (hd example_es_results))) *
          spec_lexical_norm (hd example_es_results) +
        snd (spec_weights (es_match_tier (hd example_es_results))) *
          spec_semantic example_semantic_results (es_id (hd example_es_results))"
    using inst 1 by blast
  have b: "\<exists>r\<in>set (combine_results_with_tier_weights round_to_grid example_es_results example_semantic_results).
      f_id r = sem_id (last example_semantic_results) \<and>
      f_match_tier r = Some ''semantic_only'' \<and>
      combined_search_score r =
        0.9 * (case sem_norm_cos_sim (last example_semantic_results) of
                 None \<Rightarrow> 0 | Some v \<Rightarrow> v)"
    using inst 2 by blast
  have a': "\<exists>r\<in>set (combine_results_with_tier_weights round_to_grid example_es_results example_semantic_results).
      f_id r = 1 \<and> f_match_tier r = Some ''exact'' \<and>
      combined_search_score r = 0.9 * min (5000 / 10000) 1 + 0.1 * 0"
    using a
    by (simp add: example_es_results_def example_semantic_results_def spec_weights_def
        spec_lexical_norm_def spec_semantic_def)
  have b': "\<exists>r\<in>set (combine_results_with_tier_weights round_to_grid example_es_results example_semantic_results).
      f_id r = 9 \<and> f_match_tier r = Some ''semantic_only'' \<and>
      combined_search_score r = 0.9 * 0.5"
    using b by (simp add: example_semantic_results_def)
  have c: "map (\<lambda>r. (f_id r, f_match_tier r, combined_search_score r))
     (combine_results_with_tier_weights round_to_grid example_es_results example_semantic_results) =
   [(1, Some ''exact'', 0.45), (2, Some ''relevant'', 0.9),
    (3, Some ''similar'', 0.01), (9, Some ''semantic_only'', 0.45)]"
    by (simp add: example_fusion_grid)
  from 1 2 a' b' c show ?thesis by blast
qed

section \<open>The order of the fused list\<close>
















text \<open>
  The rounding of the sort key is visible in the order. Two exact matches with the fused
  scores \<open>0.5\<close> and \<open>0.50000000001\<close> get the same key \<open>1000000.5\<close>, and the stable sort
  leaves them in their input order, the lower fused score first: the list is not in
  \<open>(tierRank desc, fusedScore desc)\<close> order, only in that order up to rounding.
\<close>

lemma near_tie_fusion:
  "combine_results_with_tier_weights round_to_grid near_tie_es_results
        near_tie_semantic_results =
     [\<lparr>f_id = 1, f_candidate_id = 10, f_match_tier = Some ''exact'',
        f_elasticsearch_score = Some 5000, combined_search_score = 0.5,
        f_tier_priority = 1000000, es_component_score = 0.5,
        semantic_component_score = 0.5, f_final_score = 1000000.5\<rparr>,
      \<lparr>f_id = 2, f_candidate_id = 11, f_match_tier = Some ''exact'',
        f_elasticsearch_score = Some 5000, combined_search_score = 0.50000000001,
        f_tier_priority = 1000000, es_component_score = 0.5,
        semantic_component_score = 0.5000000001, f_final_score = 1000000.5\<rparr>]"
  by (simp add: combine_results_with_tier_weights_def semantic_map_def fuse_es_def fuse_sem_def
      fused_final_ge_def sorted_desc_def round_to_grid_def Let_def near_tie_es_results_def
      near_tie_semantic_results_def)

lemma near_tie_keeps_input_order:
  "map (\<lambda>r. (f_id r, f_match_tier r, combined_search_score r, f_final_score r))
     (combine_results_with_tier_weights round_to_grid near_tie_es_results
        near_tie_semantic_results) =
     [(1, Some ''exact'', 0.5, 1000000.5), (2, Some ''exact'', 0.50000000001, 1000000.5)] \<and>
   \<not> sorted_wrt spec_order_ge
     (combine_results_with_tier_weights round_to_grid near_tie_es_results
        near_tie_semantic_results) \<and>
   sorted_wrt rounded_order_ge
     (combine_results_with_tier_weights round_to_grid near_tie_es_results
        near_tie_semantic_results)"
  by (simp add: near_tie_fusion spec_order_ge_def rounded_order_ge_def tierRank_def)





section \<open>Tiered lexical retrieval\<close>

lemma ids_of_set:
  "ids_of rs = Inr ids \<Longrightarrow> r \<in> set rs \<Longrightarrow> t_id r = Some i \<Longrightarrow> i \<in> set ids"
  by (induction rs arbitrary: ids) (auto split: option.splits sum.splits)

lemma honoured:
  assumes "honours_must_not svc" and "es_search svc body = Inr hits"
    and "r \<in> set (map (plain_doc ty) hits)" and "t_id r = Some i"
  shows "i \<notin> set (body_must_not body)"
proof -
  from assms(3) obtain h where h: "h \<in> set hits" "r = plain_doc ty h" by auto
  then have "source_id h = Some i" using assms(4) by (simp add: plain_doc_def)
  with assms(1,2) h(1) show ?thesis unfolding honours_must_not_def by blast
qed

lemma relevant_excluded:
  assumes "honours_must_not svc" and "r \<in> set (get_relevant_matches svc q l ids)"
    and "t_id r = Some i"
  shows "i \<notin> set ids"
proof (cases "es_search svc \<lparr>body_pass = RelevantPass, body_query = q, body_size = l,
                           body_must_not = ids\<rparr>")
  case (Inl e)
  then show ?thesis using assms(2) by (simp add: get_relevant_matches_def)
next
  case (Inr hits)
  then have "r \<in> set (map (plain_doc ''relevant'') hits)"
    using assms(2) by (simp add: get_relevant_matches_def)
  from honoured [OF assms(1) Inr this assms(3)] show ?thesis by simp
qed

lemma similar_excluded:
  assumes "honours_must_not svc" and "r \<in> set (get_similar_matches svc q l ids)"
    and "t_id r = Some i"
  shows "i \<notin> set ids"
proof (cases "es_search svc \<lparr>body_pass = SimilarPass, body_query = q, body_size = l,
                           body_must_not = ids\<rparr>")
  case (Inl e)
  then show ?thesis using assms(2) by (simp add: get_similar_matches_def)
next
  case (Inr hits)
  then have "r \<in> set (map (plain_doc ''similar'') hits)"
    using assms(2) by (simp add: get_similar_matches_def)
  from honoured [OF assms(1) Inr this assms(3)] show ?thesis by simp
qed

lemma tag_fields: "t_id (tag tier p r) = t_id r \<and> t_match_tier (tag tier p r) = Some tier"
  by (simp add: tag_def)

lemma priority_layers_steps:
  assumes "priority_layers svc query limit = Inr results"
  shows "\<exists>R S.
           relevant_pass svc (english_query svc query) limit
             (get_exact_matches_english svc (english_query svc query)) = Inr R \<and>
           similar_pass svc (english_query svc query) limit
             (get_exact_matches_english svc (english_query svc query)) R = Inr S \<and>
           results = tag_and_sort limit
             (get_exact_matches_english svc (english_query svc query)) R S"
  using assms by (auto simp: priority_layers_def Let_def split: sum.splits)

lemma priority_layers_parts:
  assumes "priority_layers svc query limit = Inr results"
  shows "\<exists>E R S.
           set results \<subseteq> tag ''exact'' 1000000 ` set E \<union> tag ''relevant'' 100000 ` set R
                          \<union> tag ''similar'' 10000 ` set S \<and>
           (R = [] \<or> (\<exists>ids l. ids_of E = Inr ids \<and>
                               R = get_relevant_matches svc (english_query svc query) l ids)) \<and>
           (S = [] \<or> (\<exists>ids l. ids_of (E @ R) = Inr ids \<and>
                               S = get_similar_matches svc (english_query svc query) l ids))"
proof -
  let ?q = "english_query svc query"
  let ?E = "get_exact_matches_english svc ?q"
  from priority_layers_steps [OF assms] obtain R S where
    R: "relevant_pass svc ?q limit ?E = Inr R" and
    S: "similar_pass svc ?q limit ?E R = Inr S" and
    res: "results = tag_and_sort limit ?E R S"
    by blast
  have 1: "set results \<subseteq> tag ''exact'' 1000000 ` set ?E \<union> tag ''relevant'' 100000 ` set R
                          \<union> tag ''similar'' 10000 ` set S"
    unfolding res tag_and_sort_def using set_py_take_subset
    by (fastforce simp: set_sorted_desc)
  have 2: "R = [] \<or> (\<exists>ids l. ids_of ?E = Inr ids \<and> R = get_relevant_matches svc ?q l ids)"
    using R by (auto simp: relevant_pass_def split: if_splits sum.splits)
  have 3: "S = [] \<or> (\<exists>ids l. ids_of (?E @ R) = Inr ids \<and> S = get_similar_matches svc ?q l ids)"
    using S by (auto simp: similar_pass_def Let_def split: if_splits sum.splits)
  from 1 2 3 show ?thesis by blast
qed

text \<open>
  Claim C7. The relevant pass sends the ids of the exact results in its \<open>must_not\<close>
  clause, and the similar pass the ids of the exact and the relevant results. For every
  index that honours the clause, no experience id is returned in two different tiers.
\<close>

theorem tiers_exclusive:
  assumes hon: "honours_must_not svc"
    and res: "search_with_priority_layers svc query limit = Inr results"
    and a: "a \<in> set results" and b: "b \<in> set results"
    and ia: "t_id a = Some i" and ib: "t_id b = Some i"
  shows "t_match_tier a = t_match_tier b"
proof -
  from res a have "priority_layers svc query limit = Inr results"
    by (auto simp: search_with_priority_layers_def split: sum.splits)
  from priority_layers_parts [OF this] obtain E R S where
    sub: "set results \<subseteq> tag ''exact'' 1000000 ` set E \<union> tag ''relevant'' 100000 ` set R
                          \<union> tag ''similar'' 10000 ` set S"
    and R: "R = [] \<or> (\<exists>ids l. ids_of E = Inr ids \<and>
                R = get_relevant_matches svc (english_query svc query) l ids)"
    and S: "S = [] \<or> (\<exists>ids l. ids_of (E @ R) = Inr ids \<and>
                S = get_similar_matches svc (english_query svc query) l ids)"
    by blast
  have ER: False if "x \<in> set E" "y \<in> set R" "t_id x = Some i" "t_id y = Some i" for x y
  proof -
    from that(2) R obtain ids l where "ids_of E = Inr ids"
      "R = get_relevant_matches svc (english_query svc query) l ids" by auto
    then show False
      using ids_of_set [of E ids x i] relevant_excluded [OF hon, of y _ l ids i] that by auto
  qed
  have ES: False if "x \<in> set E \<or> x \<in> set R" "y \<in> set S" "t_id x = Some i" "t_id y = Some i"
    for x y
  proof -
    from that(2) S obtain ids l where "ids_of (E @ R) = Inr ids"
      "S = get_similar_matches svc (english_query svc query) l ids" by auto
    then show False
      using ids_of_set [of "E @ R" ids x i] similar_excluded [OF hon, of y _ l ids i] that
      by auto
  qed
  from sub a consider
      x where "x \<in> set E" "a = tag ''exact'' 1000000 x"
    | x where "x \<in> set R" "a = tag ''relevant'' 100000 x"
    | x where "x \<in> set S" "a = tag ''similar'' 10000 x"
    by blast
  then show ?thesis
  proof cases
    case 1
    from sub b consider
        y where "y \<in> set E" "b = tag ''exact'' 1000000 y"
      | y where "y \<in> set R" "b = tag ''relevant'' 100000 y"
      | y where "y \<in> set S" "b = tag ''similar'' 10000 y"
      by blast
    then show ?thesis
    proof cases
      case 1
      with \<open>a = tag ''exact'' 1000000 x\<close> show ?thesis by (simp add: tag_def)
    next
      case 2
      with 1 ia ib ER [of x y] show ?thesis by (simp add: tag_def)
    next
      case 3
      with 1 ia ib ES [of x y] show ?thesis by (simp add: tag_def)
    qed
  next
    case 2
    from sub b consider
        y where "y \<in> set E" "b = tag ''exact'' 1000000 y"
      | y where "y \<in> set R" "b = tag ''relevant'' 100000 y"
      | y where "y \<in> set S" "b = tag ''similar'' 10000 y"
      by blast
    then show ?thesis
    proof cases
      case 1
      with 2 ia ib ER [of y x] show ?thesis by (simp add: tag_def)
    next
      case 2
      with \<open>a = tag ''relevant'' 100000 x\<close> show ?thesis by (simp add: tag_def)
    next
      case 3
      with 2 ia ib ES [of x y] show ?thesis by (simp add: tag_def)
    qed
  next
    case 3
    from sub b consider
        y where "y \<in> set E" "b = tag ''exact'' 1000000 y"
      | y where "y \<in> set R" "b = tag ''relevant'' 100000 y"
      | y where "y \<in> set S" "b = tag ''similar'' 10000 y"
      by blast
    then show ?thesis
    proof cases
      case 1
      with 3 ia ib ES [of y x] show ?thesis by (simp add: tag_def)
    next
      case 2
      with 3 ia ib ES [of y x] show ?thesis by (simp add: tag_def)
    next
      case 3
      with \<open>a = tag ''similar'' 10000 x\<close> show ?thesis by (simp add: tag_def)
    qed
  qed
qed

lemma example_honours: "honours_must_not example_service"
  unfolding honours_must_not_def example_service_def
  by (auto simp: example_search_def not_excluded_def example_hit_def split: pass.splits)

lemma example_layers:
  "search_with_priority_layers example_service [100, 97] 10 =
     Inr [\<lparr>t_id = Some 1, t_candidate_id = 11, t_elasticsearch_score = 95,
         match_type = ''exact'', match_quality = Some ''perfect'', t_match_tier = Some ''exact'',
         t_tier_priority = Some 1000000\<rparr>,
       \<lparr>t_id = Some 2, t_candidate_id = 12, t_elasticsearch_score = 3000,
         match_type = ''relevant'', match_quality = None, t_match_tier = Some ''relevant'',
         t_tier_priority = Some 100000\<rparr>,
       \<lparr>t_id = Some 2, t_candidate_id = 12, t_elasticsearch_score = 2500,
         match_type = ''relevant'', match_quality = None, t_match_tier = Some ''relevant'',
         t_tier_priority = Some 100000\<rparr>,
       \<lparr>t_id = Some 3, t_candidate_id = 13, t_elasticsearch_score = 100,
         match_type = ''similar'', match_quality = None, t_match_tier = Some ''similar'',
         t_tier_priority = Some 10000\<rparr>]"
  by (simp add: retrieval_defs)

theorem tiers_exclusive_witness:
  "honours_must_not example_service \<and>
   (\<exists>results a b.
      search_with_priority_layers example_service [100, 97] 10 = Inr results \<and>
      a \<in> set results \<and> b \<in> set results \<and> a \<noteq> b \<and>
      t_id a = Some 2 \<and> t_id b = Some 2 \<and> t_match_tier a = t_match_tier b \<and>
      map (\<lambda>r. (t_id r, t_match_tier r)) results =
        [(Some 1, Some ''exact''), (Some 2, Some ''relevant''),
         (Some 2, Some ''relevant''), (Some 3, Some ''similar'')])"
proof -
  let ?a = "\<lparr>t_id = Some 2, t_candidate_id = 12, t_elasticsearch_score = 3000,
         match_type = ''relevant'', match_quality = None, t_match_tier = Some ''relevant'',
         t_tier_priority = Some 100000\<rparr>"
  let ?b = "\<lparr>t_id = Some 2, t_candidate_id = 12, t_elasticsearch_score = 2500,
         match_type = ''relevant'', match_quality = None, t_match_tier = Some ''relevant'',
         t_tier_priority = Some 100000\<rparr>"
  let ?out = "[\<lparr>t_id = Some 1, t_candidate_id = 11, t_elasticsearch_score = 95,
         match_type = ''exact'', match_quality = Some ''perfect'', t_match_tier = Some ''exact'',
         t_tier_priority = Some 1000000\<rparr>,
       \<lparr>t_id = Some 2, t_candidate_id = 12, t_elasticsearch_score = 3000,
         match_type = ''relevant'', match_quality = None, t_match_tier = Some ''relevant'',
         t_tier_priority = Some 100000\<rparr>,
       \<lparr>t_id = Some 2, t_candidate_id = 12, t_elasticsearch_score = 2500,
         match_type = ''relevant'', match_quality = None, t_match_tier = Some ''relevant'',
         t_tier_priority = Some 100000\<rparr>,
       \<lparr>t_id = Some 3, t_candidate_id = 13, t_elasticsearch_score = 100,
         match_type = ''similar'', match_quality = None, t_match_tier = Some ''similar'',
         t_tier_priority = Some 10000\<rparr>]"
  have res: "search_with_priority_layers example_service [100, 97] 10 = Inr ?out"
    by (rule example_layers)
  have a: "?a \<in> set ?out" and b: "?b \<in> set ?out" by simp_all
  have ia: "t_id ?a = Some 2" and ib: "t_id ?b = Some 2" by simp_all
  have ne: "?a \<noteq> ?b" by simp
  have m: "map (\<lambda>r. (t_id r, t_match_tier r)) ?out =
      [(Some 1, Some ''exact''), (Some 2, Some ''relevant''),
       (Some 2, Some ''relevant''), (Some 3, Some ''similar'')]"
    by simp
  have t: "t_match_tier ?a = t_match_tier ?b"
    by (rule tiers_exclusive [OF example_honours res a b ia ib])
  show ?thesis
  proof (intro conjI exI)
    show "honours_must_not example_service" by (rule example_honours)
    show "search_with_priority_layers example_service [100, 97] 10 = Inr ?out" by (rule res)
    show "?a \<in> set ?out" by (rule a)
    show "?b \<in> set ?out" by (rule b)
    show "?a \<noteq> ?b" by (rule ne)
    show "t_id ?a = Some 2" by (rule ia)
    show "t_id ?b = Some 2" by (rule ib)
    show "t_match_tier ?a = t_match_tier ?b" by (rule t)
    show "map (\<lambda>r. (t_id r, t_match_tier r)) ?out =
      [(Some 1, Some ''exact''), (Some 2, Some ''relevant''),
       (Some 2, Some ''relevant''), (Some 3, Some ''similar'')]" by (rule m)
  qed
qed














section \<open>The empty query\<close>

text \<open>
  Claim C9 at a concrete input. For an empty position and a description of white space
  the body of the endpoint raises \<open>HTTPException(400, "Invalid or empty search query")\<close>
  without any call to a collaborator; the handler \<open>except Exception\<close> of the same
  function catches it, and the caller receives \<open>HTTPException(500, "Internal server error")\<close>.
\<close>

theorem empty_query_is_internal_server_error:
  "search_candidates_try env rest \<lparr>position = [], description = [32, 9, 10]\<rparr> =
     (Inl (HTTPException 400 ''Invalid or empty search query''), []) \<and>
   search_candidates env rest \<lparr>position = [], description = [32, 9, 10]\<rparr> =
     (Inl (HTTPException 500 ''Internal server error''), [])"
  by (simp add: search_candidates_def search_candidates_try_def process_query_def
      py_strip_def is_space_def)

lemma dropWhile_all: "(\<forall>x\<in>set (dropWhile P s). P x) \<longleftrightarrow> (\<forall>c\<in>set s. P c)"
proof
  assume a: "\<forall>x\<in>set (dropWhile P s). P x"
  have "dropWhile P s = []"
  proof (rule ccontr)
    assume "dropWhile P s \<noteq> []"
    then have "\<not> P (hd (dropWhile P s))" by (rule hd_dropWhile)
    moreover have "hd (dropWhile P s) \<in> set (dropWhile P s)"
      using \<open>dropWhile P s \<noteq> []\<close> by simp
    ultimately show False using a by blast
  qed
  then show "\<forall>c\<in>set s. P c" by (simp add: dropWhile_eq_Nil_conv)
next
  assume "\<forall>c\<in>set s. P c"
  then show "\<forall>x\<in>set (dropWhile P s). P x" by (auto dest: set_dropWhileD)
qed

lemma py_strip_empty_iff: "py_strip s = [] \<longleftrightarrow> (\<forall>c\<in>set s. is_space c)"
  by (simp add: py_strip_def dropWhile_eq_Nil_conv dropWhile_all)

text \<open>
  For every request whose position and description are empty or white space, the endpoint
  fails with the status 500 and makes no call: neither translation, nor embedding, nor
  retrieval.
\<close>

theorem empty_query_makes_no_call:
  assumes "\<forall>c\<in>set (position req). is_space c" and "\<forall>c\<in>set (description req). is_space c"
  shows "search_candidates env rest req = (Inl (HTTPException 500 ''Internal server error''), [])"
  using assms
  by (simp add: search_candidates_def search_candidates_try_def process_query_def
      py_strip_empty_iff)

theorem empty_query_makes_no_call_witness:
  "list_all is_space (position \<lparr>position = [32], description = [9, 10]\<rparr>) \<and>
   list_all is_space (description \<lparr>position = [32], description = [9, 10]\<rparr>) \<and>
   search_candidates example_env example_rest \<lparr>position = [32], description = [9, 10]\<rparr> =
     (Inl (HTTPException 500 ''Internal server error''), [])"
  using empty_query_makes_no_call
    [of "\<lparr>position = [32], description = [9, 10]\<rparr>" example_env example_rest]
  by (simp add: is_space_def)

text \<open>A query that is not empty reaches the rest of the endpoint, with its calls.\<close>

lemma nonempty_query_reaches_retrieval:
  "search_candidates example_env example_rest \<lparr>position = [100, 97], description = []\<rparr> =
     (Inr 0, [TranslateCall [100, 97],
              EmbeddingCall [80, 111, 115, 105, 116, 105, 111, 110, 58, 32, 100, 97],
              RetrievalCall [100, 97]])"
  by (simp add: search_candidates_def search_candidates_try_def process_query_def
      process_query_try_def translate_if_def query_embedding_def create_structured_text_def
      example_env_def example_rest_def py_strip_def is_space_def Let_def)

end
